theory Spec2Isabelle
  imports Main "HOL-Library.Multiset"
begin

section \<open>Data model of insertion_deleting_sqlite.py\<close>

text \<open>
  A Python \<open>str\<close> is a sequence of Unicode code points; it is modelled as the list of
  the code points' numbers, so that text outside Latin-1 (the bot's users write
  Cyrillic) is covered. \<open>py\<close> turns an ASCII literal into such a string.
\<close>

type_synonym pystr = "nat list"

definition py :: "string \<Rightarrow> pystr" where
  "py s = map of_char s"

text \<open>
  A row of the table \<open>login_id (id INTEGER, username TEXT, password TEXT)\<close>. The
  table has no primary key and no constraint, so it is a list of rows in insertion
  (rowid) order, with duplicates allowed. The table may not exist yet in
  \<open>users.db\<close>: then the field \<open>login_id\<close> of the state is \<open>None\<close>.
\<close>

type_synonym row = "int \<times> pystr \<times> pystr"

definition row_id :: "row \<Rightarrow> int" where
  "row_id r = fst r"

definition row_username :: "row \<Rightarrow> pystr" where
  "row_username r = fst (snd r)"

definition row_password :: "row \<Rightarrow> pystr" where
  "row_password r = snd (snd r)"

text \<open>The exceptions the handlers can raise.\<close>

datatype error =
    ChannelError      \<comment> \<open>a call of the bot API or the download raised\<close>
  | NotASnapshot      \<comment> \<open>the fetched text is not a JSON array of \<open>[integer, string, string]\<close>
                           arrays: \<open>json.loads\<close> raises or returns another value, and the
                           model does not follow the handler further\<close>
  | OverflowError     \<comment> \<open>sqlite3: an integer parameter outside 64 bits\<close>
  | UnicodeEncodeError \<comment> \<open>sqlite3: a string parameter with a surrogate code point\<close>
  | OperationalError  \<comment> \<open>sqlite3: no such table \<open>login_id\<close>\<close>
  | AttributeError    \<comment> \<open>\<open>messg.chat.id\<close> on an object without it\<close>
  | EOFError          \<comment> \<open>\<open>input()\<close> at the end of standard input\<close>

text \<open>
  The inbound message: the handlers read \<open>messg.chat.id\<close> and
  \<open>messg.message_id\<close> only. A handler called with an object that has no chat id
  (\<open>update_data(None)\<close>, or \<open>register\<close> called from the command line) gets
  \<open>None\<close>.
\<close>

record message =
  chat_id :: int
  message_id :: int

text \<open>
  The texts the handlers send, one constructor per format string of the source, and
  the requests made of the bot API. Every request is logged in the state in the
  order it is made, whether it succeeds or not.
\<close>

datatype outmsg =
    Deleting             \<comment> \<open>\<open>"Deleting"\<close>\<close>
  | NoSuchUser           \<comment> \<open>\<open>"NO SUCH USER IN DATABASE"\<close>\<close>
  | DeletedUser int      \<comment> \<open>\<open>f"Deleted user {people_id}"\<close>\<close>
  | AdminId int          \<comment> \<open>\<open>'admin_id = {}'\<close>\<close>
  | ConfigId int         \<comment> \<open>\<open>'config_id = {}'\<close>\<close>
  | FileId pystr         \<comment> \<open>\<open>'file_id = {}'\<close>\<close>
  | NotRegistered        \<comment> \<open>the text sent by \<open>sighin\<close> for an unknown username\<close>

datatype request =
    GetFile pystr
  | SendDocument int pystr
  | SendMessage int outmsg
  | EditMessageMedia int int pystr

text \<open>
  The external channel (the telebot client and the download by URL) is not code of
  this program: it is a parameter that says how each request is answered while one
  handler runs. \<open>None\<close> and \<open>False\<close> mean that the call raises.
\<close>

record channel =
  get_file :: "pystr \<Rightarrow> pystr option"
    \<comment> \<open>file id to the text of the file, read and decoded as UTF-8\<close>
  send_document :: "int \<Rightarrow> pystr \<Rightarrow> pystr option"
    \<comment> \<open>chat id and text to the file id of the stored document\<close>
  send_message :: "int \<Rightarrow> outmsg \<Rightarrow> bool"
  edit_message_media :: "int \<Rightarrow> int \<Rightarrow> pystr \<Rightarrow> bool"

text \<open>
  The state a handler reads and writes: the table in \<open>users.db\<close>, the three module
  globals, standard input (the lines not read yet) and the log of requests.
\<close>

record state =
  login_id :: "row list option"
  global_data_chat :: int
  global_data_message :: int
  global_file_id :: pystr
  stdin :: "pystr list"
  requests :: "request list"

definition log_request :: "request \<Rightarrow> state \<Rightarrow> state" where
  "log_request q st = st\<lparr>requests := requests st @ [q]\<rparr>"

section \<open>The handler delete\<close>

text \<open>\<open>SELECT id FROM login_id WHERE id = x\<close> followed by \<open>fetchone()\<close>.\<close>

definition select_id_where_id :: "row list \<Rightarrow> int \<Rightarrow> int option" where
  "select_id_where_id rows x =
     (case filter (\<lambda>r. row_id r = x) rows of [] \<Rightarrow> None | r # _ \<Rightarrow> Some (row_id r))"

text \<open>\<open>DELETE FROM login_id WHERE id = x\<close>.\<close>

definition delete_where_id :: "row list \<Rightarrow> int \<Rightarrow> row list" where
  "delete_where_id rows x = filter (\<lambda>r. row_id r \<noteq> x) rows"

text \<open>
  \<open>delete(messg)\<close>. The DELETE is committed after the message "Deleted user" is
  sent: when that call raises, the function is left before \<open>connect.commit()\<close> and
  the open transaction is rolled back, so the table keeps its rows.
\<close>

definition delete :: "channel \<Rightarrow> message option \<Rightarrow> state \<Rightarrow> (error + unit) \<times> state" where
  "delete chan messg st =
     (case messg of
        None \<Rightarrow> (Inl AttributeError, st)
      | Some m \<Rightarrow>
          let people_id = chat_id m;
              st1 = log_request (SendMessage people_id Deleting) st
          in if \<not> send_message chan people_id Deleting then (Inl ChannelError, st1)
             else
               (case login_id st1 of
                  None \<Rightarrow> (Inl OperationalError, st1)
                | Some rows \<Rightarrow>
                    (case select_id_where_id rows people_id of
                       None \<Rightarrow>
                         let st2 = log_request (SendMessage people_id NoSuchUser) st1
                         in if send_message chan people_id NoSuchUser then (Inr (), st2)
                            else (Inl ChannelError, st2)
                     | Some _ \<Rightarrow>
                         let st2 = log_request (SendMessage people_id (DeletedUser people_id)) st1
                         in if send_message chan people_id (DeletedUser people_id)
                            then (Inr (), st2\<lparr>login_id := Some (delete_where_id rows people_id)\<rparr>)
                            else (Inl ChannelError, st2))))"

text \<open>A channel that accepts every request; uploads get the file id \<open>fid\<close>.\<close>

definition reliable :: "pystr \<Rightarrow> pystr \<Rightarrow> channel" where
  "reliable blob fid =
     \<lparr>get_file = (\<lambda>_. Some blob), send_document = (\<lambda>_ _. Some fid),
      send_message = (\<lambda>_ _. True), edit_message_media = (\<lambda>_ _ _. True)\<rparr>"

definition state0 :: "row list \<Rightarrow> state" where
  "state0 rows =
     \<lparr>login_id = Some rows, global_data_chat = 721641425, global_data_message = 430,
      global_file_id = py ''BQACAgIAAxkDAAIBrmKbrXkKo_0d3Nbo-Cmr1Zpy0_fWAALzGwACYDDgSFN_tbcimLj3JAQ'',
      stdin = [], requests = []\<rparr>"

section \<open>The ranking queries of register\<close>

text \<open>
  \<open>ORDER BY id DESC\<close>. SQL leaves the order of rows with equal ids open; the model
  keeps them in insertion order (a stable sort on the negated id).
\<close>

definition order_by_id_desc :: "row list \<Rightarrow> row list" where
  "order_by_id_desc rows = sort_key (\<lambda>r. - row_id r) rows"

text \<open>
  \<open>SELECT id, username FROM login_id ORDER BY id DESC LIMIT n\<close>. The source runs it
  with the limit 10 only (\<open>results_10\<close>).
\<close>

definition select_top :: "nat \<Rightarrow> row list \<Rightarrow> (int \<times> pystr) list" where
  "select_top n rows = take n (map (\<lambda>r. (row_id r, row_username r)) (order_by_id_desc rows))"

definition results_10 :: "row list \<Rightarrow> (int \<times> pystr) list" where
  "results_10 rows = select_top 10 rows"

text \<open>
  \<open>SELECT id, username, ROW_NUMBER() over(ORDER BY id DESC) AS Row FROM login_id\<close>:
  every record with its 1-based position in the descending order.
\<close>

definition select_row_number :: "row list \<Rightarrow> (int \<times> pystr \<times> nat) list" where
  "select_row_number rows =
     map (\<lambda>(n, r). (row_id r, row_username r, n))
       (zip [1 ..< Suc (length rows)] (order_by_id_desc rows))"

text \<open>\<open>user_place = [i for i in user_place if i[1] == username_in]\<close>.\<close>

definition user_place :: "row list \<Rightarrow> pystr \<Rightarrow> (int \<times> pystr \<times> nat) list" where
  "user_place rows username_in = filter (\<lambda>i. fst (snd i) = username_in) (select_row_number rows)"

section \<open>The snapshot text: json.dumps and json.loads\<close>

text \<open>
  \<open>json.dumps(data)\<close> for the list of tuples that \<open>fetchall()\<close> returns: a JSON
  array of arrays \<open>[id, "username", "password"]\<close>, items separated by a comma and a
  space, integers in decimal, strings with the default \<open>ensure_ascii\<close> escapes
  (\<open>\"\<close>, \<open>\\\<close>, \<open>\n\<close>, \<open>\r\<close>, \<open>\t\<close>, \<open>\f\<close>, \<open>\b\<close>, four lower-case hex digits after
  \<open>\u\<close> for every other character outside the printable ASCII range, a surrogate
  pair above U+FFFF). Characters are written by their code: 34 is the double quote,
  92 the backslash, 91 and 93 the brackets, 44 the comma, 32 the space, 45 the minus
  sign, 48 the digit zero, 117 the letter u.
\<close>

fun digits :: "nat \<Rightarrow> pystr" where
  "digits n = (if n < 10 then [48 + n] else digits (n div 10) @ [48 + n mod 10])"

declare digits.simps [simp del]

definition encode_int :: "int \<Rightarrow> pystr" where
  "encode_int i = (if i < 0 then 45 # digits (nat (- i)) else digits (nat i))"

definition hexdigit :: "nat \<Rightarrow> nat" where
  "hexdigit d = (if d < 10 then 48 + d else 87 + d)"

definition hex4 :: "nat \<Rightarrow> pystr" where
  "hex4 n = [hexdigit (n div 4096 mod 16), hexdigit (n div 256 mod 16),
             hexdigit (n div 16 mod 16), hexdigit (n mod 16)]"

definition escape :: "nat \<Rightarrow> pystr" where
  "escape c =
     (if c = 34 then [92, 34]
      else if c = 92 then [92, 92]
      else if c = 10 then [92, 110]
      else if c = 13 then [92, 114]
      else if c = 9 then [92, 116]
      else if c = 12 then [92, 102]
      else if c = 8 then [92, 98]
      else if 32 \<le> c \<and> c \<le> 126 then [c]
      else if c < 65536 then [92, 117] @ hex4 c
      else [92, 117] @ hex4 (55296 + (c - 65536) div 1024 mod 1024)
         @ [92, 117] @ hex4 (56320 + (c - 65536) mod 1024))"

definition encode_string :: "pystr \<Rightarrow> pystr" where
  "encode_string s = 34 # concat (map escape s) @ [34]"

fun join :: "pystr list \<Rightarrow> pystr" where
  "join [] = []"
| "join [x] = x"
| "join (x # y # ys) = x @ [44, 32] @ join (y # ys)"

definition encode_list :: "pystr list \<Rightarrow> pystr" where
  "encode_list items = 91 # join items @ [93]"

definition encode_row :: "row \<Rightarrow> pystr" where
  "encode_row r =
     (case r of (i, username, password) \<Rightarrow>
        encode_list [encode_int i, encode_string username, encode_string password])"

definition encode :: "row list \<Rightarrow> pystr" where
  "encode data = encode_list (map encode_row data)"

text \<open>
  \<open>json.loads\<close> on such a text, followed by the reading of every element as the
  three values bound by \<open>INSERT INTO login_id VALUES (?,?,?)\<close>. White space is a
  space, tab, line feed or carriage return. \<open>scanstring\<close> is the strict string
  scanner: it starts after the opening quote, rejects raw control characters, and
  joins a high surrogate escape with a low surrogate escape that follows it.
\<close>

definition is_ws :: "nat \<Rightarrow> bool" where
  "is_ws c \<longleftrightarrow> c = 32 \<or> c = 9 \<or> c = 10 \<or> c = 13"

definition skip_ws :: "pystr \<Rightarrow> pystr" where
  "skip_ws cs = dropWhile is_ws cs"

definition is_digit :: "nat \<Rightarrow> bool" where
  "is_digit c \<longleftrightarrow> 48 \<le> c \<and> c \<le> 57"

definition digits_value :: "pystr \<Rightarrow> nat" where
  "digits_value ds = foldl (\<lambda>v d. 10 * v + (d - 48)) 0 ds"

definition scan_nat :: "pystr \<Rightarrow> (nat \<times> pystr) option" where
  "scan_nat cs =
     (case cs of
        [] \<Rightarrow> None
      | c # cs' \<Rightarrow>
          if c = 48 then Some (0, cs')
          else if is_digit c then Some (digits_value (takeWhile is_digit cs), dropWhile is_digit cs)
          else None)"

definition scan_int :: "pystr \<Rightarrow> (int \<times> pystr) option" where
  "scan_int cs =
     (case cs of
        [] \<Rightarrow> None
      | c # cs' \<Rightarrow>
          if c = 45 then map_option (\<lambda>(n, rest). (- int n, rest)) (scan_nat cs')
          else map_option (\<lambda>(n, rest). (int n, rest)) (scan_nat cs))"

definition hexval :: "nat \<Rightarrow> nat option" where
  "hexval c =
     (if 48 \<le> c \<and> c \<le> 57 then Some (c - 48)
      else if 97 \<le> c \<and> c \<le> 102 then Some (c - 87)
      else if 65 \<le> c \<and> c \<le> 70 then Some (c - 55)
      else None)"

definition hex4val :: "nat \<Rightarrow> nat \<Rightarrow> nat \<Rightarrow> nat \<Rightarrow> nat option" where
  "hex4val a b c d =
     (case (hexval a, hexval b, hexval c, hexval d) of
        (Some w, Some x, Some y, Some z) \<Rightarrow> Some (4096 * w + 256 * x + 16 * y + z)
      | _ \<Rightarrow> None)"

definition backslash :: "nat \<Rightarrow> nat option" where
  "backslash e =
     (if e = 34 then Some 34
      else if e = 92 then Some 92
      else if e = 47 then Some 47
      else if e = 98 then Some 8
      else if e = 102 then Some 12
      else if e = 110 then Some 10
      else if e = 114 then Some 13
      else if e = 116 then Some 9
      else None)"

definition cons_char :: "nat \<Rightarrow> (pystr \<times> pystr) option \<Rightarrow> (pystr \<times> pystr) option" where
  "cons_char c res = map_option (\<lambda>(s, rest). (c # s, rest)) res"

fun scanstring :: "pystr \<Rightarrow> (pystr \<times> pystr) option" where
  "scanstring [] = None"
| "scanstring (c # cs) =
     (if c = 34 then Some ([], cs)
      else if c = 92 then
        (case cs of
           [] \<Rightarrow> None
         | e # cs1 \<Rightarrow>
             if e \<noteq> 117 then
               (case backslash e of
                  None \<Rightarrow> None
                | Some ch \<Rightarrow> cons_char ch (scanstring cs1))
             else
               (case cs1 of
                  h1 # h2 # h3 # h4 # cs2 \<Rightarrow>
                    (case hex4val h1 h2 h3 h4 of
                       None \<Rightarrow> None
                     | Some uni \<Rightarrow>
                         if 55296 \<le> uni \<and> uni \<le> 56319 then
                           (case cs2 of
                              b # u # l1 # l2 # l3 # l4 # cs3 \<Rightarrow>
                                if b = 92 \<and> u = 117 then
                                  (case hex4val l1 l2 l3 l4 of
                                     None \<Rightarrow> None
                                   | Some uni2 \<Rightarrow>
                                       if 56320 \<le> uni2 \<and> uni2 \<le> 57343
                                       then cons_char (65536 + ((uni - 55296) * 1024 + (uni2 - 56320)))
                                              (scanstring cs3)
                                       else cons_char uni (scanstring cs2))
                                else cons_char uni (scanstring cs2)
                            | _ \<Rightarrow> cons_char uni (scanstring cs2))
                         else cons_char uni (scanstring cs2))
                | _ \<Rightarrow> None))
      else if c < 32 then None
      else cons_char c (scanstring cs))"


definition expect :: "nat \<Rightarrow> pystr \<Rightarrow> pystr option" where
  "expect c cs = (case cs of [] \<Rightarrow> None | x # rest \<Rightarrow> if x = c then Some rest else None)"

text \<open>One row: \<open>[\<close> integer \<open>,\<close> string \<open>,\<close> string \<open>]\<close>, white space allowed between tokens.\<close>

definition scan_row :: "pystr \<Rightarrow> (row \<times> pystr) option" where
  "scan_row cs =
     Option.bind (expect 91 cs) (\<lambda>cs1.
     Option.bind (scan_int (skip_ws cs1)) (\<lambda>(i, cs2).
     Option.bind (expect 44 (skip_ws cs2)) (\<lambda>cs3.
     Option.bind (expect 34 (skip_ws cs3)) (\<lambda>cs4.
     Option.bind (scanstring cs4) (\<lambda>(username, cs5).
     Option.bind (expect 44 (skip_ws cs5)) (\<lambda>cs6.
     Option.bind (expect 34 (skip_ws cs6)) (\<lambda>cs7.
     Option.bind (scanstring cs7) (\<lambda>(password, cs8).
     Option.bind (expect 93 (skip_ws cs8)) (\<lambda>cs9.
     Some ((i, username, password), cs9))))))))))"

text \<open>
  The loop of the array parser over the rows, after the opening bracket: a row, then
  \<open>]\<close> or a comma and the next row. The first argument bounds the number of rows
  read; \<open>scan_array\<close> starts it with the length of the text, which no text exceeds.
\<close>

primrec scan_rows :: "nat \<Rightarrow> pystr \<Rightarrow> (row list \<times> pystr) option" where
  "scan_rows 0 cs = None"
| "scan_rows (Suc n) cs =
     (case scan_row cs of
        None \<Rightarrow> None
      | Some (r, rest) \<Rightarrow>
          (case skip_ws rest of
             [] \<Rightarrow> None
           | d # rest' \<Rightarrow>
               if d = 93 then Some ([r], rest')
               else if d = 44 then
                 map_option (\<lambda>(rs, z). (r # rs, z)) (scan_rows n (skip_ws rest'))
               else None))"

definition scan_array :: "pystr \<Rightarrow> (row list \<times> pystr) option" where
  "scan_array cs =
     (case expect 91 cs of
        None \<Rightarrow> None
      | Some cs1 \<Rightarrow>
          (case expect 93 (skip_ws cs1) of
             Some rest \<Rightarrow> Some ([], rest)
           | None \<Rightarrow> scan_rows (length cs) (skip_ws cs1)))"

text \<open>
  \<open>decode\<close> covers the texts that are a JSON array of \<open>[integer, string, string]\<close>
  arrays, the shape \<open>json.dumps\<close> gives the table. On every other text it is
  \<open>Inl NotASnapshot\<close>: there \<open>json.loads\<close> raises or returns a value of another shape
  (an object, a number, a row with a float), and what the handler does with such a
  value is not modelled. \<open>NotASnapshot\<close> is therefore not an exception of the program
  but the end of the model, and every property of the pull below is stated for texts
  with a result \<open>Inr data\<close>. Whether the rows of \<open>data\<close> can be inserted is decided
  later, by \<open>executemany\<close>.
\<close>

definition decode :: "pystr \<Rightarrow> error + row list" where
  "decode blob =
     (case scan_array (skip_ws blob) of
        None \<Rightarrow> Inl NotASnapshot
      | Some (data, rest) \<Rightarrow> if skip_ws rest = [] then Inr data else Inl NotASnapshot)"

section \<open>The handlers that pull and push the snapshot\<close>

text \<open>
  \<open>get_data()\<close>: download the file named by \<open>global_file_id\<close> and parse it. The
  calls \<open>get_file\<close>, \<open>get_file_url\<close>, \<open>urlopen\<close>, \<open>read\<close> and \<open>decode('utf-8')\<close> are one
  request of the channel here.
\<close>

definition get_data :: "channel \<Rightarrow> state \<Rightarrow> (error + row list) \<times> state" where
  "get_data chan st =
     (let st1 = log_request (GetFile (global_file_id st)) st
      in case get_file chan (global_file_id st) of
           None \<Rightarrow> (Inl ChannelError, st1)
         | Some json_file \<Rightarrow> (decode json_file, st1))"

text \<open>
  Binding the parameters of a statement. sqlite3 raises \<open>OverflowError\<close> for an
  integer outside the signed 64-bit range and \<open>UnicodeEncodeError\<close> for a string that
  has a surrogate code point (U+D800 to U+DFFF), which UTF-8 cannot encode. The
  parameters of a row are bound in the order id, username, password.
\<close>

definition bindable_int :: "int \<Rightarrow> bool" where
  "bindable_int i \<longleftrightarrow> - 9223372036854775808 \<le> i \<and> i \<le> 9223372036854775807"

definition bindable_text :: "pystr \<Rightarrow> bool" where
  "bindable_text s \<longleftrightarrow> list_all (\<lambda>c. c < 55296 \<or> 57343 < c) s"

definition bind_row :: "row \<Rightarrow> error option" where
  "bind_row r =
     (if bindable_int (row_id r)
      then if bindable_text (row_username r)
           then if bindable_text (row_password r) then None else Some UnicodeEncodeError
           else Some UnicodeEncodeError
      else Some OverflowError)"

text \<open>
  \<open>cursor.executemany("INSERT INTO login_id VALUES (?,?,?)", data)\<close> on a table
  holding \<open>rows\<close>: the rows of \<open>data\<close> are added at the end, in order. The first row
  that cannot be bound raises; the rows inserted before it are not committed, so the
  result is then the exception alone.
\<close>

fun executemany :: "row list \<Rightarrow> row list \<Rightarrow> error + row list" where
  "executemany rows [] = Inr rows"
| "executemany rows (r # data) =
     (case bind_row r of
        Some e \<Rightarrow> Inl e
      | None \<Rightarrow> executemany (rows @ [r]) data)"

text \<open>
  The block "server case" at the start of \<open>register\<close> and \<open>sighin\<close>:
  \<open>CREATE TABLE IF NOT EXISTS\<close>, \<open>data = get_data()\<close>,
  \<open>executemany("INSERT INTO login_id VALUES (?,?,?)", data)\<close>, \<open>commit()\<close>. The table
  is created before the download; the rows of the snapshot are added after the rows
  the table holds, and no statement deletes a row. When the download, the parse or
  the insert raises, the table exists and holds the rows it held.
\<close>

definition server_case :: "channel \<Rightarrow> state \<Rightarrow> (error + unit) \<times> state" where
  "server_case chan st =
     (let rows = (case login_id st of None \<Rightarrow> [] | Some rows \<Rightarrow> rows);
          st1 = st\<lparr>login_id := Some rows\<rparr>
      in case get_data chan st1 of
           (Inl e, st2) \<Rightarrow> (Inl e, st2)
         | (Inr data, st2) \<Rightarrow>
             (case executemany rows data of
                Inl e \<Rightarrow> (Inl e, st2)
              | Inr rows' \<Rightarrow> (Inr (), st2\<lparr>login_id := Some rows'\<rparr>)))"

text \<open>
  \<open>update_data(messg)\<close>: \<open>SELECT * FROM login_id\<close>, \<open>json.dumps\<close>, then
  \<open>edit_message_media\<close> at the message named by the globals inside
  \<open>try ... except Exception as ex: print(ex)\<close>. The function has no \<open>global\<close>
  statement: \<open>admin_id\<close> and \<open>config_id\<close> are locals. Both outcomes of the edit leave
  the function normally; the printed text is not modelled.
\<close>

definition update_data :: "channel \<Rightarrow> message option \<Rightarrow> state \<Rightarrow> (error + unit) \<times> state" where
  "update_data chan messg st =
     (case login_id st of
        None \<Rightarrow> (Inl OperationalError, st)
      | Some data \<Rightarrow>
          let str_data = encode data;
              st1 = log_request
                      (EditMessageMedia (global_data_chat st) (global_data_message st) str_data) st
          in if edit_message_media chan (global_data_chat st) (global_data_message st) str_data
             then (Inr (), st1)
             else (Inr (), st1))"

text \<open>
  \<open>save_data(messg)\<close>: send the snapshot as a new document, announce the chat id and
  the message id, assign the three globals, announce the file id, then edit the
  message inside \<open>try ... except\<close> as \<open>update_data\<close> does. A call outside the
  \<open>try\<close> that raises ends the function with the exception.
\<close>

definition save_data :: "channel \<Rightarrow> message option \<Rightarrow> state \<Rightarrow> (error + unit) \<times> state" where
  "save_data chan messg st =
     (case login_id st of
        None \<Rightarrow> (Inl OperationalError, st)
      | Some data \<Rightarrow>
          (case messg of
             None \<Rightarrow> (Inl AttributeError, st)
           | Some m \<Rightarrow>
               let str_data = encode data;
                   c = chat_id m;
                   k = message_id m + 1;
                   st1 = log_request (SendDocument c str_data) st
               in case send_document chan c str_data of
                    None \<Rightarrow> (Inl ChannelError, st1)
                  | Some fid \<Rightarrow>
                      let st2 = log_request (SendMessage c (AdminId c)) st1
                      in if \<not> send_message chan c (AdminId c) then (Inl ChannelError, st2)
                         else
                           let st3 = log_request (SendMessage c (ConfigId k)) st2
                           in if \<not> send_message chan c (ConfigId k) then (Inl ChannelError, st3)
                              else
                                let st4 = st3\<lparr>global_data_chat := c, global_data_message := k,
                                              global_file_id := fid\<rparr>;
                                    st5 = log_request (SendMessage c (FileId fid)) st4
                                in if \<not> send_message chan c (FileId fid)
                                   then (Inl ChannelError, st5)
                                   else
                                     let st6 = log_request (EditMessageMedia c k str_data) st5
                                     in if edit_message_media chan c k str_data
                                        then (Inr (), st6)
                                        else (Inr (), st6)))"

section \<open>The handlers register and sighin\<close>

text \<open>\<open>input()\<close>: the next line of standard input, \<open>EOFError\<close> when there is none.\<close>

definition input :: "state \<Rightarrow> (error + pystr) \<times> state" where
  "input st =
     (case stdin st of
        [] \<Rightarrow> (Inl EOFError, st)
      | line # rest \<Rightarrow> (Inr line, st\<lparr>stdin := rest\<rparr>))"

text \<open>A parameter that defaults to \<open>None\<close> and is read from standard input then.\<close>

definition or_input :: "pystr option \<Rightarrow> state \<Rightarrow> (error + pystr) \<times> state" where
  "or_input arg st = (case arg of None \<Rightarrow> input st | Some v \<Rightarrow> (Inr v, st))"

text \<open>\<open>SELECT ... FROM login_id WHERE username = ?\<close> followed by \<open>fetchone()\<close>.\<close>

definition select_where_username :: "row list \<Rightarrow> pystr \<Rightarrow> row option" where
  "select_where_username rows username_in = find (\<lambda>r. row_username r = username_in) rows"

text \<open>
  \<open>try: user_id = [messg.chat.id] except: user_id = [0]\<close>.
\<close>

definition user_id :: "message option \<Rightarrow> int" where
  "user_id messg = (case messg of None \<Rightarrow> 0 | Some m \<Rightarrow> chat_id m)"

text \<open>
  \<open>register(messg, username_in, password_in)\<close>. The result \<open>None\<close> is the pair
  \<open>(None, None)\<close> of the source; \<open>Some (results_10, user_place)\<close> is the pair of the
  two lists. The SELECT binds the username and the INSERT binds the id, the username
  and the password: a value that cannot be bound raises and nothing is inserted.
\<close>

type_synonym register_result = "((int \<times> pystr) list \<times> (int \<times> pystr \<times> nat) list) option"

definition register ::
  "channel \<Rightarrow> message option \<Rightarrow> pystr option \<Rightarrow> pystr option \<Rightarrow> state
     \<Rightarrow> (error + register_result) \<times> state" where
  "register chan messg username_in password_in st =
     (case server_case chan st of
        (Inl e, st1) \<Rightarrow> (Inl e, st1)
      | (Inr _, st1) \<Rightarrow>
          (case or_input username_in st1 of
             (Inl e, st2) \<Rightarrow> (Inl e, st2)
           | (Inr username, st2) \<Rightarrow>
               (case login_id st2 of
                  None \<Rightarrow> (Inl OperationalError, st2)
                | Some rows \<Rightarrow>
                    if \<not> bindable_text username then (Inl UnicodeEncodeError, st2)
                    else
                      (case select_where_username rows username of
                         Some name_out \<Rightarrow> (Inr None, st2)
                       | None \<Rightarrow>
                           (case or_input password_in st2 of
                              (Inl e, st3) \<Rightarrow> (Inl e, st3)
                            | (Inr password, st3) \<Rightarrow>
                                (case bind_row (user_id messg, username, password) of
                                   Some e \<Rightarrow> (Inl e, st3)
                                 | None \<Rightarrow>
                                     let rows' = rows @ [(user_id messg, username, password)];
                                         st4 = st3\<lparr>login_id := Some rows'\<rparr>
                                     in case update_data chan None st4 of
                                          (Inl e, st5) \<Rightarrow> (Inl e, st5)
                                        | (Inr _, st5) \<Rightarrow>
                                            (Inr (Some (results_10 rows',
                                                        user_place rows' username)),
                                             st5)))))))"

text \<open>
  \<open>sighin(messg)\<close>. The function returns \<open>None\<close> on every path; the result of the
  model says which line it prints or sends.
\<close>

datatype sighin_result = NotYetRegistered | LoggedIn | WrongPassword

definition sighin :: "channel \<Rightarrow> message option \<Rightarrow> state \<Rightarrow> (error + sighin_result) \<times> state" where
  "sighin chan messg st =
     (case server_case chan st of
        (Inl e, st1) \<Rightarrow> (Inl e, st1)
      | (Inr _, st1) \<Rightarrow>
          (case input st1 of
             (Inl e, st2) \<Rightarrow> (Inl e, st2)
           | (Inr username, st2) \<Rightarrow>
               (case login_id st2 of
                  None \<Rightarrow> (Inl OperationalError, st2)
                | Some rows \<Rightarrow>
                    if \<not> bindable_text username then (Inl UnicodeEncodeError, st2)
                    else
                      (case select_where_username rows username of
                         None \<Rightarrow>
                           (case messg of
                              None \<Rightarrow> (Inl AttributeError, st2)
                            | Some m \<Rightarrow>
                                let st3 = log_request (SendMessage (chat_id m) NotRegistered) st2
                                in if send_message chan (chat_id m) NotRegistered
                                   then (Inr NotYetRegistered, st3)
                                   else (Inl ChannelError, st3))
                       | Some name_out \<Rightarrow>
                           (case input st2 of
                              (Inl e, st3) \<Rightarrow> (Inl e, st3)
                            | (Inr password, st3) \<Rightarrow>
                                if row_password name_out = password then (Inr LoggedIn, st3)
                                else (Inr WrongPassword, st3))))))"

text \<open>The three records of the scenario of the specification.\<close>

definition example_rows :: "row list" where
  "example_rows =
     [(1, py ''alice'', py ''pw1''), (5, py ''bob'', py ''pw2''), (3, py ''carol'', py ''pw3'')]"

text \<open>The three globals that name the last snapshot sent by \<open>save_data\<close>.\<close>

definition snapshot_pointer :: "state \<Rightarrow> int \<times> int \<times> pystr" where
  "snapshot_pointer st = (global_data_chat st, global_data_message st, global_file_id st)"

text \<open>A channel on which every request fails.\<close>

definition unreachable :: channel where
  "unreachable =
     \<lparr>get_file = (\<lambda>_. None), send_document = (\<lambda>_ _. None),
      send_message = (\<lambda>_ _. False), edit_message_media = (\<lambda>_ _ _. False)\<rparr>"

text \<open>
  A channel that accepts the first \<open>n\<close> requests of \<open>save_data\<close> and rejects the
  later ones: the upload is accepted when \<open>1 \<le> n\<close> and gets the file id \<open>fid\<close>, the
  announcement of the chat id when \<open>2 \<le> n\<close>, of the message id when \<open>3 \<le> n\<close>, of the
  file id when \<open>4 \<le> n\<close>, and the edit when \<open>5 \<le> n\<close>.
\<close>

definition accepting :: "nat \<Rightarrow> pystr \<Rightarrow> channel" where
  "accepting n fid =
     \<lparr>get_file = (\<lambda>_. None),
      send_document = (\<lambda>_ _. if 1 \<le> n then Some fid else None),
      send_message = (\<lambda>_ t. case t of AdminId _ \<Rightarrow> 2 \<le> n | ConfigId _ \<Rightarrow> 3 \<le> n
                                   | FileId _ \<Rightarrow> 4 \<le> n | _ \<Rightarrow> True),
      edit_message_media = (\<lambda>_ _ _. 5 \<le> n)\<rparr>"

text \<open>
  Two snapshot texts: one record that can be inserted, and one whose id is
  \<open>2\<^sup>6\<^sup>3\<close>, which \<open>json.loads\<close> reads and sqlite3 cannot bind.
\<close>

definition dave_blob :: pystr where
  "dave_blob = py ''[[7, \"dave\", \"pw4\"]]''"



section \<open>Properties of delete\<close>










section \<open>Properties of the ranking queries\<close>

lemma order_by_id_desc_sorted: "sorted_wrt (\<ge>) (map row_id (order_by_id_desc rows))"
proof -
  have "sorted (map (\<lambda>r. - row_id r) (order_by_id_desc rows))"
    by (simp add: order_by_id_desc_def)
  then show ?thesis
    by (simp add: sorted_wrt_map)
qed

lemma select_top_ids: "map fst (select_top n rows) = take n (map row_id (order_by_id_desc rows))"
  by (simp add: select_top_def take_map comp_def)

text \<open>
  C6. For every table and every limit \<open>k\<close> the top query returns at most \<open>k\<close> entries
  with ids in non-increasing order; for the three records of the scenario the limit 3
  (and the source's limit 10) gives bob, carol, alice.
\<close>

theorem top_n_bounded_and_descending: "length (select_top k rows) \<le> k
   \<and> sorted_wrt (\<ge>) (map fst (select_top k rows))
   \<and> select_top 3 example_rows = [(5, py ''bob''), (3, py ''carol''), (1, py ''alice'')]
   \<and> results_10 example_rows = [(5, py ''bob''), (3, py ''carol''), (1, py ''alice'')]"
proof (intro conjI)
  show "length (select_top k rows) \<le> k" by (simp add: select_top_def)
  show "sorted_wrt (\<ge>) (map fst (select_top k rows))"
    unfolding select_top_ids using order_by_id_desc_sorted sorted_wrt_take by blast
  show "select_top 3 example_rows = [(5, py ''bob''), (3, py ''carol''), (1, py ''alice'')]"
    by (simp add: select_top_def order_by_id_desc_def example_rows_def row_id_def row_username_def)
  show "results_10 example_rows = [(5, py ''bob''), (3, py ''carol''), (1, py ''alice'')]"
    by (simp add: results_10_def select_top_def order_by_id_desc_def example_rows_def row_id_def row_username_def)
qed

lemma order_by_id_desc_mset: "mset (order_by_id_desc rows) = mset rows"
  by (simp add: order_by_id_desc_def)

lemma order_by_id_desc_set: "set (order_by_id_desc rows) = set rows"
  by (simp add: order_by_id_desc_def)

lemma order_by_id_desc_length: "length (order_by_id_desc rows) = length rows"
  by (simp add: order_by_id_desc_def)

lemma order_by_id_desc_strict:
  assumes "distinct (map row_id rows)"
  shows "sorted_wrt (\<lambda>a b. row_id b < row_id a) (order_by_id_desc rows)"
proof -
  let ?s = "order_by_id_desc rows"
  have "mset (map row_id ?s) = mset (map row_id rows)"
    by (simp add: order_by_id_desc_mset)
  with assms have d: "distinct (map row_id ?s)"
    using mset_eq_imp_distinct_iff by blast
  have "distinct (map (\<lambda>r. - row_id r) ?s)"
    using d by (simp add: distinct_map inj_on_def)
  moreover have "sorted (map (\<lambda>r. - row_id r) ?s)"
    by (simp add: order_by_id_desc_def)
  ultimately have "sorted_wrt (<) (map (\<lambda>r. - row_id r) ?s)"
    by (simp add: strict_sorted_iff)
  then show ?thesis
    by (simp add: sorted_wrt_map)
qed

lemma strict_desc_card:
  assumes "sorted_wrt (\<lambda>a b. row_id b < row_id a) s" and "j < length s"
  shows "card {q \<in> set s. row_id (s ! j) < row_id q} = j"
proof -
  have lt: "\<And>a b. a < b \<Longrightarrow> b < length s \<Longrightarrow> row_id (s ! b) < row_id (s ! a)"
    using assms(1) by (simp add: sorted_wrt_iff_nth_less)
  have inj: "inj_on row_id (set s)"
  proof (rule inj_onI)
    fix p q assume "p \<in> set s" "q \<in> set s" "row_id p = row_id q"
    then obtain a b where ab: "a < length s" "s ! a = p" "b < length s" "s ! b = q"
      by (auto simp: in_set_conv_nth)
    have "a = b"
    proof (rule ccontr)
      assume "a \<noteq> b"
      then consider "a < b" | "b < a" by linarith
      then show False
        using lt [of a b] lt [of b a] ab \<open>row_id p = row_id q\<close> by cases auto
    qed
    with ab show "p = q" by simp
  qed
  have "{q \<in> set s. row_id (s ! j) < row_id q} = (\<lambda>i. s ! i) ` {..<j}"
  proof (intro set_eqI iffI)
    fix q assume "q \<in> {q \<in> set s. row_id (s ! j) < row_id q}"
    then obtain a where a: "a < length s" "s ! a = q" "row_id (s ! j) < row_id (s ! a)"
      by (auto simp: in_set_conv_nth)
    have "a < j"
    proof (rule ccontr)
      assume "\<not> a < j"
      then consider "a = j" | "j < a" by linarith
      then show False using a lt [of j a] by cases auto
    qed
    with a show "q \<in> (\<lambda>i. s ! i) ` {..<j}" by auto
  next
    fix q assume "q \<in> (\<lambda>i. s ! i) ` {..<j}"
    then obtain a where "a < j" "q = s ! a" by auto
    with assms(2) lt [of a j] show "q \<in> {q \<in> set s. row_id (s ! j) < row_id q}"
      by auto
  qed
  moreover have "inj_on (\<lambda>i. s ! i) {..<j}"
  proof (rule inj_onI)
    fix a b assume "a \<in> {..<j}" "b \<in> {..<j}" "s ! a = s ! b"
    show "a = b"
    proof (rule ccontr)
      assume "a \<noteq> b"
      then consider "a < b" | "b < a" by linarith
      then show False
        using lt [of a b] lt [of b a] \<open>a \<in> {..<j}\<close> \<open>b \<in> {..<j}\<close> \<open>s ! a = s ! b\<close> assms(2)
        by cases auto
    qed
  qed
  ultimately show ?thesis
    by (simp add: card_image)
qed

lemma select_row_number_nth:
  "select_row_number rows =
     map (\<lambda>j. (row_id (order_by_id_desc rows ! j), row_username (order_by_id_desc rows ! j), Suc j))
       [0 ..< length rows]"
proof (rule nth_equalityI)
  show "length (select_row_number rows) = length (map (\<lambda>j. (row_id (order_by_id_desc rows ! j), row_username (order_by_id_desc rows ! j), Suc j)) [0 ..< length rows])"
    by (simp add: select_row_number_def order_by_id_desc_length del: upt_Suc)
next
  fix i assume "i < length (select_row_number rows)"
  then have i: "i < length rows"
    by (simp add: select_row_number_def order_by_id_desc_length del: upt_Suc)
  then have "[1 ..< Suc (length rows)] ! i = Suc i"
    using nth_upt [of 1 i "Suc (length rows)"] by simp
  with i show "select_row_number rows ! i = map (\<lambda>j. (row_id (order_by_id_desc rows ! j), row_username (order_by_id_desc rows ! j), Suc j)) [0 ..< length rows] ! i"
    by (simp add: select_row_number_def order_by_id_desc_length del: upt_Suc)
qed

lemma select_row_number_set:
  assumes "distinct (map row_id rows)"
  shows "set (select_row_number rows) =
           (\<lambda>r. (row_id r, row_username r, Suc (card {q \<in> set rows. row_id r < row_id q}))) ` set rows"
proof -
  let ?s = "order_by_id_desc rows"
  let ?f = "\<lambda>r. (row_id r, row_username r, Suc (card {q \<in> set rows. row_id r < row_id q}))"
  have strict: "sorted_wrt (\<lambda>a b. row_id b < row_id a) ?s"
    by (rule order_by_id_desc_strict [OF assms])
  have rank: "\<And>j. j < length rows \<Longrightarrow> card {q \<in> set rows. row_id (?s ! j) < row_id q} = j"
    using strict_desc_card [OF strict] by (simp add: order_by_id_desc_set order_by_id_desc_length)
  have "select_row_number rows = map (\<lambda>j. ?f (?s ! j)) [0 ..< length rows]"
    unfolding select_row_number_nth using rank by simp
  also have "\<dots> = map ?f (map (\<lambda>j. ?s ! j) [0 ..< length ?s])"
    by (simp add: order_by_id_desc_length comp_def)
  also have "\<dots> = map ?f ?s"
    by (simp add: map_nth)
  finally show ?thesis
    by (simp add: order_by_id_desc_set)
qed

text \<open>
  C7. In a table with pairwise distinct ids, the rank entries for a username are the
  records with that username, each with 1 plus the number of records with a larger
  id (its 1-based position in descending order of id): a record with the largest id
  has rank 1, one with the smallest id has rank N, and a username in no record has no
  entry.
\<close>

theorem rank_of_is_ordinal:
  assumes "distinct (map row_id rows)"
  shows "set (user_place rows u) =
           {(row_id r, u, Suc (card {q \<in> set rows. row_id r < row_id q})) | r.
              r \<in> set rows \<and> row_username r = u}
       \<and> (\<forall>r \<in> set rows. (\<forall>q \<in> set rows. row_id q \<le> row_id r) \<longrightarrow>
             (row_id r, row_username r, 1) \<in> set (user_place rows (row_username r)))
       \<and> (\<forall>r \<in> set rows. (\<forall>q \<in> set rows. row_id r \<le> row_id q) \<longrightarrow>
             (row_id r, row_username r, length rows) \<in> set (user_place rows (row_username r)))
       \<and> (u \<notin> row_username ` set rows \<longrightarrow> user_place rows u = [])"
proof -
  let ?rank = "\<lambda>r. Suc (card {q \<in> set rows. row_id r < row_id q})"
  have main: "set (user_place rows v) =
           {(row_id r, v, ?rank r) | r. r \<in> set rows \<and> row_username r = v}" for v
    unfolding user_place_def set_filter select_row_number_set [OF assms] by fastforce
  have mem: "(row_id r, row_username r, ?rank r) \<in> set (user_place rows (row_username r))"
    if "r \<in> set rows" for r
    unfolding main using that by blast
  have top: "(row_id r, row_username r, 1) \<in> set (user_place rows (row_username r))"
    if r: "r \<in> set rows" and big: "\<forall>q \<in> set rows. row_id q \<le> row_id r" for r
  proof -
    have "{q \<in> set rows. row_id r < row_id q} = {}"
      using big by fastforce
    then have "?rank r = 1" by simp
    with mem [OF r] show ?thesis by simp
  qed
  have bottom: "(row_id r, row_username r, length rows) \<in> set (user_place rows (row_username r))"
    if r: "r \<in> set rows" and small: "\<forall>q \<in> set rows. row_id r \<le> row_id q" for r
  proof -
    have inj: "inj_on row_id (set rows)" and d: "distinct rows"
      using assms by (simp_all add: distinct_map)
    have "{q \<in> set rows. row_id r < row_id q} = set rows - {r}"
    proof (intro set_eqI iffI)
      fix q assume "q \<in> {q \<in> set rows. row_id r < row_id q}"
      then show "q \<in> set rows - {r}" by auto
    next
      fix q assume q: "q \<in> set rows - {r}"
      then have "row_id q \<noteq> row_id r"
        using inj r by (auto dest: inj_onD)
      moreover have "row_id r \<le> row_id q" using small q by simp
      ultimately show "q \<in> {q \<in> set rows. row_id r < row_id q}"
        using q by simp
    qed
    then have "card {q \<in> set rows. row_id r < row_id q} = length rows - 1"
      using r d by (simp add: distinct_card)
    moreover have "0 < length rows"
      using r by (cases rows) auto
    ultimately have "?rank r = length rows" by simp
    with mem [OF r] show ?thesis by simp
  qed
  have none: "user_place rows u = []" if "u \<notin> row_username ` set rows"
  proof -
    have "set (user_place rows u) = {}"
      unfolding main using that by auto
    then show ?thesis by simp
  qed
  show ?thesis
    using main [of u] top bottom none by blast
qed

theorem rank_of_is_ordinal_witness:
  "distinct (map row_id example_rows)
   \<and> (5, py ''bob'', 1) \<in> set (user_place example_rows (py ''bob''))
   \<and> (1, py ''alice'', 3) \<in> set (user_place example_rows (py ''alice''))
   \<and> user_place example_rows (py ''carol'') = [(3, py ''carol'', 2)]
   \<and> user_place example_rows (py ''dave'') = []"
proof -
  have d: "distinct (map row_id example_rows)"
    by (simp add: example_rows_def row_id_def)
  note t = rank_of_is_ordinal [OF d, of "py ''dave''"]
  note top = t [THEN conjunct2, THEN conjunct1]
  note bottom = t [THEN conjunct2, THEN conjunct2, THEN conjunct1]
  note none = t [THEN conjunct2, THEN conjunct2, THEN conjunct2]
  have bob: "(5, py ''bob'', py ''pw2'') \<in> set example_rows"
    and alice: "(1, py ''alice'', py ''pw1'') \<in> set example_rows"
    by (simp_all add: example_rows_def)
  have big: "\<forall>q \<in> set example_rows. row_id q \<le> row_id (5, py ''bob'', py ''pw2'')"
    and small: "\<forall>q \<in> set example_rows. row_id (1, py ''alice'', py ''pw1'') \<le> row_id q"
    by (simp_all add: example_rows_def row_id_def)
  have "(5, py ''bob'', 1) \<in> set (user_place example_rows (py ''bob''))"
    using top [THEN bspec, OF bob, THEN mp, OF big]
    by (simp add: row_id_def row_username_def)
  moreover have "(1, py ''alice'', 3) \<in> set (user_place example_rows (py ''alice''))"
  proof -
    have "length example_rows = 3"
      by (simp add: example_rows_def)
    with bottom [THEN bspec, OF alice, THEN mp, OF small] show ?thesis
      by (simp add: row_id_def row_username_def)
  qed
  moreover have "user_place example_rows (py ''carol'') = [(3, py ''carol'', 2)]"
    by (simp add: user_place_def select_row_number_def order_by_id_desc_def example_rows_def
        row_id_def row_username_def py_def upt_rec [of 1] upt_rec [of 2] upt_rec [of 3])
  moreover have "user_place example_rows (py ''dave'') = []"
    using none by (simp add: example_rows_def row_username_def py_def)
  ultimately show ?thesis
    using d by blast
qed

section \<open>Properties of the pull\<close>


lemma decode_dave: "decode dave_blob = Inr [(7, py ''dave'', py ''pw4'')]"
  by (simp add: dave_blob_def decode_def scan_array_def scan_row_def expect_def skip_ws_def
      py_def is_ws_def scan_int_def scan_nat_def is_digit_def digits_value_def cons_char_def)


lemma executemany_Inr:
  "executemany rows data = Inr rows' \<longleftrightarrow>
     list_all (\<lambda>r. bind_row r = None) data \<and> rows' = rows @ data"
  by (induction data arbitrary: rows) (auto split: option.splits)


lemma server_case_ok:
  assumes "get_file chan (global_file_id st) = Some blob" and "decode blob = Inr data"
    and "list_all (\<lambda>r. bind_row r = None) data"
  shows "server_case chan st =
           (Inr (), st\<lparr>login_id := Some ((case login_id st of None \<Rightarrow> [] | Some rows \<Rightarrow> rows) @ data),
                       requests := requests st @ [GetFile (global_file_id st)]\<rparr>)"
proof -
  have "executemany (case login_id st of None \<Rightarrow> [] | Some rows \<Rightarrow> rows) data
          = Inr ((case login_id st of None \<Rightarrow> [] | Some rows \<Rightarrow> rows) @ data)"
    using assms(3) by (simp add: executemany_Inr)
  with assms(1,2) show ?thesis
    by (simp add: server_case_def get_data_def log_request_def Let_def)
qed



lemma bind_row_dave: "bind_row (7, py ''dave'', py ''pw4'') = None"
  by (simp add: bind_row_def bindable_int_def bindable_text_def row_id_def row_username_def
      row_password_def py_def)




section \<open>Properties of the push and of the snapshot pointer\<close>

lemma update_data_result:
  "update_data chan messg st =
     (case login_id st of
        None \<Rightarrow> (Inl OperationalError, st)
      | Some data \<Rightarrow>
          (Inr (), st\<lparr>requests := requests st @
             [EditMessageMedia (global_data_chat st) (global_data_message st) (encode data)]\<rparr>))"
  by (simp add: update_data_def log_request_def Let_def split: option.splits)

lemma update_data_pointer: "snapshot_pointer (snd (update_data chan messg st)) = snapshot_pointer st"
  by (simp add: update_data_result snapshot_pointer_def split: option.splits)

lemma get_data_frame:
  "snapshot_pointer (snd (get_data chan st)) = snapshot_pointer st"
  "login_id (snd (get_data chan st)) = login_id st"
  "stdin (snd (get_data chan st)) = stdin st"
  by (simp_all add: get_data_def log_request_def snapshot_pointer_def Let_def split: option.splits)

lemma server_case_pointer: "snapshot_pointer (snd (server_case chan st)) = snapshot_pointer st"
proof -
  let ?st1 = "st\<lparr>login_id := Some (case login_id st of None \<Rightarrow> [] | Some rows \<Rightarrow> rows)\<rparr>"
  obtain r st2 where g: "get_data chan ?st1 = (r, st2)"
    by (cases "get_data chan ?st1")
  then have "snapshot_pointer st2 = snapshot_pointer ?st1"
    using get_data_frame(1) [of chan ?st1] by simp
  then have "snapshot_pointer st2 = snapshot_pointer st"
    by (simp add: snapshot_pointer_def)
  with g show ?thesis
    by (cases r) (simp_all add: server_case_def Let_def snapshot_pointer_def split: sum.splits)
qed

lemma input_pointer: "snapshot_pointer (snd (input st)) = snapshot_pointer st"
  by (simp add: input_def snapshot_pointer_def split: list.splits)

lemma or_input_pointer: "snapshot_pointer (snd (or_input arg st)) = snapshot_pointer st"
  by (cases arg) (simp_all add: or_input_def input_pointer)

lemma delete_pointer: "snapshot_pointer (snd (delete chan messg st)) = snapshot_pointer st"
  by (simp add: delete_def log_request_def snapshot_pointer_def Let_def split: option.splits)

lemma register_pointer:
  "snapshot_pointer (snd (register chan messg username_in password_in st)) = snapshot_pointer st"
proof -
  obtain r1 st1 where s: "server_case chan st = (r1, st1)"
    by (cases "server_case chan st")
  then have p1: "snapshot_pointer st1 = snapshot_pointer st"
    using server_case_pointer [of chan st] by simp
  obtain r2 st2 where u: "or_input username_in st1 = (r2, st2)"
    by (cases "or_input username_in st1")
  then have p2: "snapshot_pointer st2 = snapshot_pointer st"
    using or_input_pointer [of username_in st1] p1 by simp
  obtain r3 st3 where w: "or_input password_in st2 = (r3, st3)"
    by (cases "or_input password_in st2")
  then have p3: "snapshot_pointer st3 = snapshot_pointer st"
    using or_input_pointer [of password_in st2] p2 by simp
  have p4: "snapshot_pointer s' = snapshot_pointer st"
    if "update_data chan None (st3\<lparr>login_id := Some rows'\<rparr>) = (r, s')" for rows' r s'
    using p3 that update_data_pointer [of chan None "st3\<lparr>login_id := Some rows'\<rparr>"]
    by (simp add: snapshot_pointer_def)
  show ?thesis
    using s u w p1 p2 p3 p4
    by (auto simp: register_def Let_def split: sum.splits option.splits prod.splits if_splits)
qed

lemma sighin_pointer: "snapshot_pointer (snd (sighin chan messg st)) = snapshot_pointer st"
proof -
  obtain r1 st1 where s: "server_case chan st = (r1, st1)"
    by (cases "server_case chan st")
  then have p1: "snapshot_pointer st1 = snapshot_pointer st"
    using server_case_pointer [of chan st] by simp
  obtain r2 st2 where u: "input st1 = (r2, st2)"
    by (cases "input st1")
  then have p2: "snapshot_pointer st2 = snapshot_pointer st"
    using input_pointer [of st1] p1 by simp
  obtain r3 st3 where w: "input st2 = (r3, st3)"
    by (cases "input st2")
  then have p3: "snapshot_pointer st3 = snapshot_pointer st"
    using input_pointer [of st2] p2 by simp
  have p4: "snapshot_pointer (log_request q st2) = snapshot_pointer st" for q
    using p2 by (simp add: log_request_def snapshot_pointer_def)
  show ?thesis
    using s u w p1 p2 p3 p4
    by (auto simp: sighin_def Let_def split: sum.splits option.splits prod.splits if_splits)
qed

text \<open>The six ways \<open>save_data\<close> ends once the table and the message are there.\<close>

lemma save_data_upload_fails:
  assumes "login_id st = Some data" and "send_document chan (chat_id m) (encode data) = None"
  shows "save_data chan (Some m) st =
           (Inl ChannelError,
            st\<lparr>requests := requests st @ [SendDocument (chat_id m) (encode data)]\<rparr>)"
  using assms by (simp add: save_data_def log_request_def Let_def)

lemma save_data_admin_id_fails:
  assumes "login_id st = Some data" and "send_document chan (chat_id m) (encode data) = Some fid"
    and "\<not> send_message chan (chat_id m) (AdminId (chat_id m))"
  shows "save_data chan (Some m) st =
           (Inl ChannelError,
            st\<lparr>requests := requests st @
              [SendDocument (chat_id m) (encode data),
               SendMessage (chat_id m) (AdminId (chat_id m))]\<rparr>)"
  using assms by (simp add: save_data_def log_request_def Let_def)

lemma save_data_config_id_fails:
  assumes "login_id st = Some data" and "send_document chan (chat_id m) (encode data) = Some fid"
    and "send_message chan (chat_id m) (AdminId (chat_id m))"
    and "\<not> send_message chan (chat_id m) (ConfigId (message_id m + 1))"
  shows "save_data chan (Some m) st =
           (Inl ChannelError,
            st\<lparr>requests := requests st @
              [SendDocument (chat_id m) (encode data),
               SendMessage (chat_id m) (AdminId (chat_id m)),
               SendMessage (chat_id m) (ConfigId (message_id m + 1))]\<rparr>)"
  using assms by (simp add: save_data_def log_request_def Let_def)

lemma save_data_file_id_fails:
  assumes "login_id st = Some data" and "send_document chan (chat_id m) (encode data) = Some fid"
    and "send_message chan (chat_id m) (AdminId (chat_id m))"
    and "send_message chan (chat_id m) (ConfigId (message_id m + 1))"
    and "\<not> send_message chan (chat_id m) (FileId fid)"
  shows "save_data chan (Some m) st =
           (Inl ChannelError,
            st\<lparr>global_data_chat := chat_id m, global_data_message := message_id m + 1,
               global_file_id := fid,
               requests := requests st @
                 [SendDocument (chat_id m) (encode data),
                  SendMessage (chat_id m) (AdminId (chat_id m)),
                  SendMessage (chat_id m) (ConfigId (message_id m + 1)),
                  SendMessage (chat_id m) (FileId fid)]\<rparr>)"
  using assms by (simp add: save_data_def log_request_def Let_def)

lemma save_data_returns:
  assumes "login_id st = Some data" and "send_document chan (chat_id m) (encode data) = Some fid"
    and "send_message chan (chat_id m) (AdminId (chat_id m))"
    and "send_message chan (chat_id m) (ConfigId (message_id m + 1))"
    and "send_message chan (chat_id m) (FileId fid)"
  shows "save_data chan (Some m) st =
           (Inr (),
            st\<lparr>global_data_chat := chat_id m, global_data_message := message_id m + 1,
               global_file_id := fid,
               requests := requests st @
                 [SendDocument (chat_id m) (encode data),
                  SendMessage (chat_id m) (AdminId (chat_id m)),
                  SendMessage (chat_id m) (ConfigId (message_id m + 1)),
                  SendMessage (chat_id m) (FileId fid),
                  EditMessageMedia (chat_id m) (message_id m + 1) (encode data)]\<rparr>)"
  using assms by (simp add: save_data_def log_request_def Let_def)

lemma save_data_assigns:
  assumes "login_id st = Some data" and "send_document chan (chat_id m) (encode data) = Some fid"
    and "send_message chan (chat_id m) (AdminId (chat_id m))"
    and "send_message chan (chat_id m) (ConfigId (message_id m + 1))"
  shows "snapshot_pointer (snd (save_data chan (Some m) st)) = (chat_id m, message_id m + 1, fid)"
proof (cases "send_message chan (chat_id m) (FileId fid)")
  case True
  with save_data_returns [OF assms] show ?thesis
    by (simp add: snapshot_pointer_def)
next
  case False
  with save_data_file_id_fails [OF assms] show ?thesis
    by (simp add: snapshot_pointer_def)
qed

lemma save_data_Inr:
  assumes "fst (save_data chan messg st) = Inr ()"
  shows "\<exists>m data fid. messg = Some m \<and> login_id st = Some data
           \<and> send_document chan (chat_id m) (encode data) = Some fid
           \<and> send_message chan (chat_id m) (AdminId (chat_id m))
           \<and> send_message chan (chat_id m) (ConfigId (message_id m + 1))
           \<and> send_message chan (chat_id m) (FileId fid)"
proof (cases "login_id st")
  case None
  with assms show ?thesis by (simp add: save_data_def)
next
  case (Some data)
  note d = this
  show ?thesis
  proof (cases messg)
    case None
    with assms d show ?thesis by (simp add: save_data_def)
  next
    case (Some m)
    note m = this
    show ?thesis
    proof (cases "send_document chan (chat_id m) (encode data)")
      case None
      with assms save_data_upload_fails [OF d None] m show ?thesis by simp
    next
      case (Some fid)
      note f = this
      have a: "send_message chan (chat_id m) (AdminId (chat_id m))"
      proof (rule ccontr)
        assume "\<not> send_message chan (chat_id m) (AdminId (chat_id m))"
        from save_data_admin_id_fails [OF d f this] assms m show False by simp
      qed
      have c: "send_message chan (chat_id m) (ConfigId (message_id m + 1))"
      proof (rule ccontr)
        assume "\<not> send_message chan (chat_id m) (ConfigId (message_id m + 1))"
        from save_data_config_id_fails [OF d f a this] assms m show False by simp
      qed
      have i: "send_message chan (chat_id m) (FileId fid)"
      proof (rule ccontr)
        assume "\<not> send_message chan (chat_id m) (FileId fid)"
        from save_data_file_id_fails [OF d f a c this] assms m show False by simp
      qed
      from d m f a c i show ?thesis by simp
    qed
  qed
qed

lemma save_data_pointer_moved:
  assumes "snapshot_pointer (snd (save_data chan messg st)) \<noteq> snapshot_pointer st"
  shows "\<exists>m data fid. messg = Some m \<and> login_id st = Some data
           \<and> send_document chan (chat_id m) (encode data) = Some fid
           \<and> send_message chan (chat_id m) (AdminId (chat_id m))
           \<and> send_message chan (chat_id m) (ConfigId (message_id m + 1))"
proof (cases "login_id st")
  case None
  with assms show ?thesis by (simp add: save_data_def)
next
  case (Some data)
  note d = this
  show ?thesis
  proof (cases messg)
    case None
    with assms d show ?thesis by (simp add: save_data_def)
  next
    case (Some m)
    note m = this
    show ?thesis
    proof (cases "send_document chan (chat_id m) (encode data)")
      case None
      with assms save_data_upload_fails [OF d None] m show ?thesis
        by (simp add: snapshot_pointer_def)
    next
      case (Some fid)
      note f = this
      have a: "send_message chan (chat_id m) (AdminId (chat_id m))"
      proof (rule ccontr)
        assume "\<not> send_message chan (chat_id m) (AdminId (chat_id m))"
        from save_data_admin_id_fails [OF d f this] assms m show False
          by (simp add: snapshot_pointer_def)
      qed
      have c: "send_message chan (chat_id m) (ConfigId (message_id m + 1))"
      proof (rule ccontr)
        assume "\<not> send_message chan (chat_id m) (ConfigId (message_id m + 1))"
        from save_data_config_id_fails [OF d f a this] assms m show False
          by (simp add: snapshot_pointer_def)
      qed
      from d m f a c show ?thesis by simp
    qed
  qed
qed

text \<open>
  C5, as the code has it. \<open>save_data\<close> assigns the pointer after the upload and the
  announcements of the chat id and of the message id: when these three requests
  succeed, the pointer after the call is the chat id, the message id plus one and the
  file id that \<open>send_document\<close> returned, whether the call then returns or ends with the
  exception of the third announcement. A \<open>save_data\<close> that returns normally has
  written the pointer so, and a \<open>save_data\<close> after which the pointer differs has got
  these three requests accepted. \<open>update_data\<close>, successful or not, \<open>register\<close>,
  \<open>sighin\<close>, \<open>delete\<close>, the pull and \<open>get_data\<close> leave the pointer, the file id
  included, as it was.
\<close>

theorem pointer_written_by_save_only:
  "(login_id st = Some data \<and> send_document chan (chat_id m) (encode data) = Some fid
      \<and> send_message chan (chat_id m) (AdminId (chat_id m))
      \<and> send_message chan (chat_id m) (ConfigId (message_id m + 1))
     \<longrightarrow> snapshot_pointer (snd (save_data chan (Some m) st)) = (chat_id m, message_id m + 1, fid))
   \<and> (fst (save_data chan messg st) = Inr () \<longrightarrow>
        (\<exists>m data fid. messg = Some m \<and> login_id st = Some data
           \<and> send_document chan (chat_id m) (encode data) = Some fid
           \<and> snapshot_pointer (snd (save_data chan messg st)) = (chat_id m, message_id m + 1, fid)))
   \<and> (snapshot_pointer (snd (save_data chan messg st)) \<noteq> snapshot_pointer st \<longrightarrow>
        (\<exists>m data fid. messg = Some m \<and> login_id st = Some data
           \<and> send_document chan (chat_id m) (encode data) = Some fid
           \<and> send_message chan (chat_id m) (AdminId (chat_id m))
           \<and> send_message chan (chat_id m) (ConfigId (message_id m + 1))))
   \<and> snapshot_pointer (snd (update_data chan messg st)) = snapshot_pointer st
   \<and> snapshot_pointer (snd (register chan messg username_in password_in st)) = snapshot_pointer st
   \<and> snapshot_pointer (snd (sighin chan messg st)) = snapshot_pointer st
   \<and> snapshot_pointer (snd (delete chan messg st)) = snapshot_pointer st
   \<and> snapshot_pointer (snd (server_case chan st)) = snapshot_pointer st
   \<and> snapshot_pointer (snd (get_data chan st)) = snapshot_pointer st"
proof -
  have 1: "snapshot_pointer (snd (save_data chan (Some m) st)) = (chat_id m, message_id m + 1, fid)"
    if "login_id st = Some data \<and> send_document chan (chat_id m) (encode data) = Some fid
        \<and> send_message chan (chat_id m) (AdminId (chat_id m))
        \<and> send_message chan (chat_id m) (ConfigId (message_id m + 1))"
    using that save_data_assigns [of st data chan m fid] by blast
  have 2: "\<exists>m data fid. messg = Some m \<and> login_id st = Some data
           \<and> send_document chan (chat_id m) (encode data) = Some fid
           \<and> snapshot_pointer (snd (save_data chan messg st)) = (chat_id m, message_id m + 1, fid)"
    if r: "fst (save_data chan messg st) = Inr ()"
  proof -
    from save_data_Inr [OF r] obtain m' data' fid' where
      h: "messg = Some m'" "login_id st = Some data'"
         "send_document chan (chat_id m') (encode data') = Some fid'"
         "send_message chan (chat_id m') (AdminId (chat_id m'))"
         "send_message chan (chat_id m') (ConfigId (message_id m' + 1))"
      by blast
    from save_data_assigns [OF h(2-5)] h(1-3) show ?thesis
      by blast
  qed
  note 3 = save_data_pointer_moved [of chan messg st]
  show ?thesis
    using 1 2 3 update_data_pointer [of chan messg st]
      register_pointer [of chan messg username_in password_in st]
      sighin_pointer [of chan messg st] delete_pointer [of chan messg st]
      server_case_pointer [of chan st] get_data_frame(1) [of chan st]
    by blast
qed

lemma save_data_reliable:
  "save_data (reliable blob fid) (Some \<lparr>chat_id = c, message_id = k\<rparr>) (state0 rows) =
     (Inr (), (state0 rows)\<lparr>global_data_chat := c, global_data_message := k + 1,
        global_file_id := fid,
        requests := [SendDocument c (encode rows), SendMessage c (AdminId c),
          SendMessage c (ConfigId (k + 1)), SendMessage c (FileId fid),
          EditMessageMedia c (k + 1) (encode rows)]\<rparr>)"
  by (simp add: save_data_def reliable_def state0_def log_request_def Let_def)

lemma save_data_accepting_3:
  "save_data (accepting 3 fid) (Some \<lparr>chat_id = c, message_id = k\<rparr>) (state0 rows) =
     (Inl ChannelError, (state0 rows)\<lparr>global_data_chat := c, global_data_message := k + 1,
        global_file_id := fid,
        requests := [SendDocument c (encode rows), SendMessage c (AdminId c),
          SendMessage c (ConfigId (k + 1)), SendMessage c (FileId fid)]\<rparr>)"
  by (simp add: save_data_def accepting_def state0_def log_request_def Let_def)

lemma save_data_accepting_4:
  "save_data (accepting 4 fid) (Some \<lparr>chat_id = c, message_id = k\<rparr>) (state0 rows) =
     (Inr (), (state0 rows)\<lparr>global_data_chat := c, global_data_message := k + 1,
        global_file_id := fid,
        requests := [SendDocument c (encode rows), SendMessage c (AdminId c),
          SendMessage c (ConfigId (k + 1)), SendMessage c (FileId fid),
          EditMessageMedia c (k + 1) (encode rows)]\<rparr>)"
  by (simp add: save_data_def accepting_def state0_def log_request_def Let_def)

lemma state0_pointer_not_42: "snapshot_pointer (state0 rows) \<noteq> (42, 8, fid)"
  by (simp add: snapshot_pointer_def state0_def)

theorem pointer_written_by_save_only_witness:
  "login_id (state0 example_rows) = Some example_rows
   \<and> send_document (reliable [] (py ''F1'')) 42 (encode example_rows) = Some (py ''F1'')
   \<and> send_message (reliable [] (py ''F1'')) 42 (AdminId 42)
   \<and> send_message (reliable [] (py ''F1'')) 42 (ConfigId 8)
   \<and> fst (save_data (reliable [] (py ''F1'')) (Some \<lparr>chat_id = 42, message_id = 7\<rparr>)
        (state0 example_rows)) = Inr ()
   \<and> snapshot_pointer (snd (save_data (reliable [] (py ''F1''))
        (Some \<lparr>chat_id = 42, message_id = 7\<rparr>) (state0 example_rows))) = (42, 8, py ''F1'')
   \<and> snapshot_pointer (snd (save_data (reliable [] (py ''F1''))
        (Some \<lparr>chat_id = 42, message_id = 7\<rparr>) (state0 example_rows)))
       \<noteq> snapshot_pointer (state0 example_rows)
   \<and> send_document (accepting 3 (py ''F1'')) 42 (encode example_rows) = Some (py ''F1'')
   \<and> send_message (accepting 3 (py ''F1'')) 42 (AdminId 42)
   \<and> send_message (accepting 3 (py ''F1'')) 42 (ConfigId 8)
   \<and> fst (save_data (accepting 3 (py ''F1'')) (Some \<lparr>chat_id = 42, message_id = 7\<rparr>)
        (state0 example_rows)) = Inl ChannelError
   \<and> snapshot_pointer (snd (save_data (accepting 3 (py ''F1''))
        (Some \<lparr>chat_id = 42, message_id = 7\<rparr>) (state0 example_rows))) = (42, 8, py ''F1'')"
proof -
  let ?m = "\<lparr>chat_id = 42, message_id = 7\<rparr>"
  let ?st = "state0 example_rows"
  let ?r = "reliable [] (py ''F1'')"
  let ?a = "accepting 3 (py ''F1'')"
  have l: "login_id ?st = Some example_rows"
    by (simp add: state0_def)
  have r: "send_document ?r 42 (encode example_rows) = Some (py ''F1'')"
    "send_message ?r 42 (AdminId 42)" "send_message ?r 42 (ConfigId 8)"
    by (simp_all add: reliable_def)
  have a: "send_document ?a 42 (encode example_rows) = Some (py ''F1'')"
    "send_message ?a 42 (AdminId 42)" "send_message ?a 42 (ConfigId 8)"
    by (simp_all add: accepting_def)
  have ok: "fst (save_data ?r (Some ?m) ?st) = Inr ()"
    by (simp add: save_data_reliable)
  have ko: "fst (save_data ?a (Some ?m) ?st) = Inl ChannelError"
    by (simp add: save_data_accepting_3)
  from pointer_written_by_save_only [of ?st example_rows ?r ?m "py ''F1''"] l r
  have p: "snapshot_pointer (snd (save_data ?r (Some ?m) ?st)) = (42, 8, py ''F1'')"
    by simp
  from pointer_written_by_save_only [of ?st example_rows ?a ?m "py ''F1''"] l a
  have q: "snapshot_pointer (snd (save_data ?a (Some ?m) ?st)) = (42, 8, py ''F1'')"
    by simp
  from p have n: "snapshot_pointer (snd (save_data ?r (Some ?m) ?st)) \<noteq> snapshot_pointer ?st"
    using state0_pointer_not_42 [of example_rows "py ''F1''"] by simp
  from l r a ok ko p q n show ?thesis
    by simp
qed

lemma encode_example_rows_not_empty: "encode example_rows \<noteq> encode []"
  by (simp add: encode_def encode_list_def example_rows_def encode_row_def py_def)

text \<open>
  C5 as stated fails twice. The update: on a channel that accepts every request the
  edit succeeds for the table of three records and for the empty table, the two texts
  pushed differ, and after both the pointer is the one the process started with, so
  its file id does not tell the two blobs apart and was not overwritten. The save: on
  a channel that rejects the announcement of the file id, \<open>save_data\<close> ends with the
  channel's exception, and the pointer has been overwritten.
\<close>

theorem pointer_tracks_push_counterexample:
  "edit_message_media (reliable [] (py ''F1'')) 721641425 430 (encode example_rows)
   \<and> edit_message_media (reliable [] (py ''F1'')) 721641425 430 (encode [])
   \<and> update_data (reliable [] (py ''F1'')) None (state0 example_rows)
       = (Inr (), (state0 example_rows)\<lparr>requests :=
            [EditMessageMedia 721641425 430 (encode example_rows)]\<rparr>)
   \<and> update_data (reliable [] (py ''F1'')) None (state0 [])
       = (Inr (), (state0 [])\<lparr>requests := [EditMessageMedia 721641425 430 (encode [])]\<rparr>)
   \<and> encode example_rows \<noteq> encode []
   \<and> snapshot_pointer (snd (update_data (reliable [] (py ''F1'')) None (state0 example_rows)))
       = snapshot_pointer (state0 example_rows)
   \<and> snapshot_pointer (snd (update_data (reliable [] (py ''F1'')) None (state0 [])))
       = snapshot_pointer (state0 example_rows)
   \<and> \<not> send_message (accepting 3 (py ''F1'')) 42 (FileId (py ''F1''))
   \<and> fst (save_data (accepting 3 (py ''F1'')) (Some \<lparr>chat_id = 42, message_id = 7\<rparr>)
        (state0 example_rows)) = Inl ChannelError
   \<and> snapshot_pointer (snd (save_data (accepting 3 (py ''F1''))
        (Some \<lparr>chat_id = 42, message_id = 7\<rparr>) (state0 example_rows))) = (42, 8, py ''F1'')
   \<and> snapshot_pointer (state0 example_rows) \<noteq> (42, 8, py ''F1'')"
proof -
  have 1: "edit_message_media (reliable [] (py ''F1'')) 721641425 430 (encode example_rows)"
    "edit_message_media (reliable [] (py ''F1'')) 721641425 430 (encode [])"
    by (simp_all add: reliable_def)
  have 2: "update_data (reliable [] (py ''F1'')) None (state0 rows)
             = (Inr (), (state0 rows)\<lparr>requests :=
                  [EditMessageMedia 721641425 430 (encode rows)]\<rparr>)" for rows
    by (simp add: update_data_result state0_def)
  have 3: "snapshot_pointer (snd (update_data (reliable [] (py ''F1'')) None (state0 rows)))
             = snapshot_pointer (state0 example_rows)" for rows
    unfolding update_data_pointer by (simp add: snapshot_pointer_def state0_def)
  have 4: "\<not> send_message (accepting 3 (py ''F1'')) 42 (FileId (py ''F1''))"
    by (simp add: accepting_def)
  have 5: "fst (save_data (accepting 3 (py ''F1'')) (Some \<lparr>chat_id = 42, message_id = 7\<rparr>)
        (state0 example_rows)) = Inl ChannelError"
    "snapshot_pointer (snd (save_data (accepting 3 (py ''F1''))
        (Some \<lparr>chat_id = 42, message_id = 7\<rparr>) (state0 example_rows))) = (42, 8, py ''F1'')"
    by (simp_all add: save_data_accepting_3 snapshot_pointer_def)
  from 1 2 [of example_rows] 2 [of "[]"] 3 [of example_rows] 3 [of "[]"] 4 5
    encode_example_rows_not_empty state0_pointer_not_42 [of example_rows "py ''F1''"]
  show ?thesis
    by simp
qed

text \<open>
  C4, as the code has it, for a table that exists. An \<open>update_data\<close> whose edit is
  rejected makes the one request, leaves the pointer and the table as they were and
  returns normally: the exception is caught and printed. A \<open>save_data\<close> whose upload,
  announcement of the chat id or announcement of the message id is rejected ends with
  the channel's exception, and the state differs from the one before in the log of
  requests only. A \<open>save_data\<close> whose announcement of the file id is rejected ends with
  the exception after the pointer was assigned, and one whose final edit is rejected
  returns normally, the exception caught and printed, also with the new pointer; the
  table is as it was. Every request is made once.
\<close>

theorem push_failure_leaves_state:
  assumes "login_id st = Some data"
  shows
  "(\<not> edit_message_media chan (global_data_chat st) (global_data_message st) (encode data)
     \<longrightarrow> update_data chan messg st =
           (Inr (), st\<lparr>requests := requests st @
              [EditMessageMedia (global_data_chat st) (global_data_message st) (encode data)]\<rparr>))
   \<and> (send_document chan (chat_id m) (encode data) = None
     \<longrightarrow> save_data chan (Some m) st =
           (Inl ChannelError,
            st\<lparr>requests := requests st @ [SendDocument (chat_id m) (encode data)]\<rparr>))
   \<and> (send_document chan (chat_id m) (encode data) = Some fid
       \<and> \<not> send_message chan (chat_id m) (AdminId (chat_id m))
     \<longrightarrow> save_data chan (Some m) st =
           (Inl ChannelError,
            st\<lparr>requests := requests st @
              [SendDocument (chat_id m) (encode data),
               SendMessage (chat_id m) (AdminId (chat_id m))]\<rparr>))
   \<and> (send_document chan (chat_id m) (encode data) = Some fid
       \<and> send_message chan (chat_id m) (AdminId (chat_id m))
       \<and> \<not> send_message chan (chat_id m) (ConfigId (message_id m + 1))
     \<longrightarrow> save_data chan (Some m) st =
           (Inl ChannelError,
            st\<lparr>requests := requests st @
              [SendDocument (chat_id m) (encode data),
               SendMessage (chat_id m) (AdminId (chat_id m)),
               SendMessage (chat_id m) (ConfigId (message_id m + 1))]\<rparr>))
   \<and> (send_document chan (chat_id m) (encode data) = Some fid
       \<and> send_message chan (chat_id m) (AdminId (chat_id m))
       \<and> send_message chan (chat_id m) (ConfigId (message_id m + 1))
       \<and> \<not> send_message chan (chat_id m) (FileId fid)
     \<longrightarrow> save_data chan (Some m) st =
           (Inl ChannelError,
            st\<lparr>global_data_chat := chat_id m, global_data_message := message_id m + 1,
               global_file_id := fid,
               requests := requests st @
                 [SendDocument (chat_id m) (encode data),
                  SendMessage (chat_id m) (AdminId (chat_id m)),
                  SendMessage (chat_id m) (ConfigId (message_id m + 1)),
                  SendMessage (chat_id m) (FileId fid)]\<rparr>))
   \<and> (send_document chan (chat_id m) (encode data) = Some fid
       \<and> send_message chan (chat_id m) (AdminId (chat_id m))
       \<and> send_message chan (chat_id m) (ConfigId (message_id m + 1))
       \<and> send_message chan (chat_id m) (FileId fid)
       \<and> \<not> edit_message_media chan (chat_id m) (message_id m + 1) (encode data)
     \<longrightarrow> save_data chan (Some m) st =
           (Inr (),
            st\<lparr>global_data_chat := chat_id m, global_data_message := message_id m + 1,
               global_file_id := fid,
               requests := requests st @
                 [SendDocument (chat_id m) (encode data),
                  SendMessage (chat_id m) (AdminId (chat_id m)),
                  SendMessage (chat_id m) (ConfigId (message_id m + 1)),
                  SendMessage (chat_id m) (FileId fid),
                  EditMessageMedia (chat_id m) (message_id m + 1) (encode data)]\<rparr>))"
proof (intro conjI impI)
  show "update_data chan messg st =
          (Inr (), st\<lparr>requests := requests st @
             [EditMessageMedia (global_data_chat st) (global_data_message st) (encode data)]\<rparr>)"
    using assms by (simp add: update_data_result)
next
  assume "send_document chan (chat_id m) (encode data) = None"
  from save_data_upload_fails [OF assms this]
  show "save_data chan (Some m) st =
          (Inl ChannelError,
           st\<lparr>requests := requests st @ [SendDocument (chat_id m) (encode data)]\<rparr>)" .
next
  assume "send_document chan (chat_id m) (encode data) = Some fid
          \<and> \<not> send_message chan (chat_id m) (AdminId (chat_id m))"
  then show "save_data chan (Some m) st =
          (Inl ChannelError,
           st\<lparr>requests := requests st @
             [SendDocument (chat_id m) (encode data),
              SendMessage (chat_id m) (AdminId (chat_id m))]\<rparr>)"
    using save_data_admin_id_fails [OF assms, of chan m fid] by blast
next
  assume "send_document chan (chat_id m) (encode data) = Some fid
          \<and> send_message chan (chat_id m) (AdminId (chat_id m))
          \<and> \<not> send_message chan (chat_id m) (ConfigId (message_id m + 1))"
  then show "save_data chan (Some m) st =
          (Inl ChannelError,
           st\<lparr>requests := requests st @
             [SendDocument (chat_id m) (encode data),
              SendMessage (chat_id m) (AdminId (chat_id m)),
              SendMessage (chat_id m) (ConfigId (message_id m + 1))]\<rparr>)"
    using save_data_config_id_fails [OF assms, of chan m fid] by blast
next
  assume "send_document chan (chat_id m) (encode data) = Some fid
          \<and> send_message chan (chat_id m) (AdminId (chat_id m))
          \<and> send_message chan (chat_id m) (ConfigId (message_id m + 1))
          \<and> \<not> send_message chan (chat_id m) (FileId fid)"
  then show "save_data chan (Some m) st =
          (Inl ChannelError,
           st\<lparr>global_data_chat := chat_id m, global_data_message := message_id m + 1,
              global_file_id := fid,
              requests := requests st @
                [SendDocument (chat_id m) (encode data),
                 SendMessage (chat_id m) (AdminId (chat_id m)),
                 SendMessage (chat_id m) (ConfigId (message_id m + 1)),
                 SendMessage (chat_id m) (FileId fid)]\<rparr>)"
    using save_data_file_id_fails [OF assms, of chan m fid] by blast
next
  assume "send_document chan (chat_id m) (encode data) = Some fid
          \<and> send_message chan (chat_id m) (AdminId (chat_id m))
          \<and> send_message chan (chat_id m) (ConfigId (message_id m + 1))
          \<and> send_message chan (chat_id m) (FileId fid)
          \<and> \<not> edit_message_media chan (chat_id m) (message_id m + 1) (encode data)"
  then show "save_data chan (Some m) st =
          (Inr (),
           st\<lparr>global_data_chat := chat_id m, global_data_message := message_id m + 1,
              global_file_id := fid,
              requests := requests st @
                [SendDocument (chat_id m) (encode data),
                 SendMessage (chat_id m) (AdminId (chat_id m)),
                 SendMessage (chat_id m) (ConfigId (message_id m + 1)),
                 SendMessage (chat_id m) (FileId fid),
                 EditMessageMedia (chat_id m) (message_id m + 1) (encode data)]\<rparr>)"
    using save_data_returns [OF assms, of chan m fid] by blast
qed

theorem push_failure_leaves_state_witness:
  "login_id (state0 example_rows) = Some example_rows
   \<and> \<not> edit_message_media unreachable (global_data_chat (state0 example_rows))
         (global_data_message (state0 example_rows)) (encode example_rows)
   \<and> update_data unreachable None (state0 example_rows) =
       (Inr (), (state0 example_rows)\<lparr>requests :=
          [EditMessageMedia 721641425 430 (encode example_rows)]\<rparr>)
   \<and> send_document (accepting 0 (py ''F1'')) 42 (encode example_rows) = None
   \<and> save_data (accepting 0 (py ''F1'')) (Some \<lparr>chat_id = 42, message_id = 7\<rparr>)
        (state0 example_rows) =
       (Inl ChannelError, (state0 example_rows)\<lparr>requests :=
          [SendDocument 42 (encode example_rows)]\<rparr>)
   \<and> send_document (accepting 1 (py ''F1'')) 42 (encode example_rows) = Some (py ''F1'')
   \<and> \<not> send_message (accepting 1 (py ''F1'')) 42 (AdminId 42)
   \<and> save_data (accepting 1 (py ''F1'')) (Some \<lparr>chat_id = 42, message_id = 7\<rparr>)
        (state0 example_rows) =
       (Inl ChannelError, (state0 example_rows)\<lparr>requests :=
          [SendDocument 42 (encode example_rows), SendMessage 42 (AdminId 42)]\<rparr>)
   \<and> send_message (accepting 2 (py ''F1'')) 42 (AdminId 42)
   \<and> \<not> send_message (accepting 2 (py ''F1'')) 42 (ConfigId 8)
   \<and> save_data (accepting 2 (py ''F1'')) (Some \<lparr>chat_id = 42, message_id = 7\<rparr>)
        (state0 example_rows) =
       (Inl ChannelError, (state0 example_rows)\<lparr>requests :=
          [SendDocument 42 (encode example_rows), SendMessage 42 (AdminId 42),
           SendMessage 42 (ConfigId 8)]\<rparr>)
   \<and> send_message (accepting 3 (py ''F1'')) 42 (ConfigId 8)
   \<and> \<not> send_message (accepting 3 (py ''F1'')) 42 (FileId (py ''F1''))
   \<and> save_data (accepting 3 (py ''F1'')) (Some \<lparr>chat_id = 42, message_id = 7\<rparr>)
        (state0 example_rows) =
       (Inl ChannelError, (state0 example_rows)\<lparr>global_data_chat := 42,
          global_data_message := 8, global_file_id := py ''F1'',
          requests :=
            [SendDocument 42 (encode example_rows), SendMessage 42 (AdminId 42),
             SendMessage 42 (ConfigId 8), SendMessage 42 (FileId (py ''F1''))]\<rparr>)
   \<and> send_message (accepting 4 (py ''F1'')) 42 (FileId (py ''F1''))
   \<and> \<not> edit_message_media (accepting 4 (py ''F1'')) 42 8 (encode example_rows)
   \<and> save_data (accepting 4 (py ''F1'')) (Some \<lparr>chat_id = 42, message_id = 7\<rparr>)
        (state0 example_rows) =
       (Inr (), (state0 example_rows)\<lparr>global_data_chat := 42,
          global_data_message := 8, global_file_id := py ''F1'',
          requests :=
            [SendDocument 42 (encode example_rows), SendMessage 42 (AdminId 42),
             SendMessage 42 (ConfigId 8), SendMessage 42 (FileId (py ''F1'')),
             EditMessageMedia 42 8 (encode example_rows)]\<rparr>)"
proof -
  let ?m = "\<lparr>chat_id = 42, message_id = 7\<rparr>"
  let ?f = "py ''F1''"
  have l: "login_id (state0 example_rows) = Some example_rows"
    by (simp add: state0_def)
  note t = push_failure_leaves_state [OF l]
  have u: "\<not> edit_message_media unreachable (global_data_chat (state0 example_rows))
         (global_data_message (state0 example_rows)) (encode example_rows)"
    by (simp add: unreachable_def)
  have 0: "update_data unreachable None (state0 example_rows) =
       (Inr (), (state0 example_rows)\<lparr>requests :=
          [EditMessageMedia 721641425 430 (encode example_rows)]\<rparr>)"
    using t [of unreachable None ?m ?f, THEN conjunct1] u by (simp add: state0_def)
  have h: "send_document (accepting 0 ?f) 42 (encode example_rows) = None"
    "send_document (accepting 1 ?f) 42 (encode example_rows) = Some ?f"
    "\<not> send_message (accepting 1 ?f) 42 (AdminId 42)"
    "send_document (accepting 2 ?f) 42 (encode example_rows) = Some ?f"
    "send_message (accepting 2 ?f) 42 (AdminId 42)"
    "\<not> send_message (accepting 2 ?f) 42 (ConfigId 8)"
    "send_document (accepting 3 ?f) 42 (encode example_rows) = Some ?f"
    "send_message (accepting 3 ?f) 42 (AdminId 42)"
    "send_message (accepting 3 ?f) 42 (ConfigId 8)"
    "\<not> send_message (accepting 3 ?f) 42 (FileId ?f)"
    "send_document (accepting 4 ?f) 42 (encode example_rows) = Some ?f"
    "send_message (accepting 4 ?f) 42 (AdminId 42)"
    "send_message (accepting 4 ?f) 42 (ConfigId 8)"
    "send_message (accepting 4 ?f) 42 (FileId ?f)"
    "\<not> edit_message_media (accepting 4 ?f) 42 8 (encode example_rows)"
    by (simp_all add: accepting_def)
  have 1: "save_data (accepting 0 ?f) (Some ?m) (state0 example_rows) =
       (Inl ChannelError, (state0 example_rows)\<lparr>requests :=
          [SendDocument 42 (encode example_rows)]\<rparr>)"
    using t [of "accepting 0 ?f" None ?m ?f, THEN conjunct2, THEN conjunct1] h
    by (simp add: state0_def)
  have 2: "save_data (accepting 1 ?f) (Some ?m) (state0 example_rows) =
       (Inl ChannelError, (state0 example_rows)\<lparr>requests :=
          [SendDocument 42 (encode example_rows), SendMessage 42 (AdminId 42)]\<rparr>)"
    using t [of "accepting 1 ?f" None ?m ?f, THEN conjunct2, THEN conjunct2, THEN conjunct1] h
    by (simp add: state0_def)
  have 3: "save_data (accepting 2 ?f) (Some ?m) (state0 example_rows) =
       (Inl ChannelError, (state0 example_rows)\<lparr>requests :=
          [SendDocument 42 (encode example_rows), SendMessage 42 (AdminId 42),
           SendMessage 42 (ConfigId 8)]\<rparr>)"
    using t [of "accepting 2 ?f" None ?m ?f, THEN conjunct2, THEN conjunct2, THEN conjunct2,
        THEN conjunct1] h
    by (simp add: state0_def)
  have 4: "save_data (accepting 3 ?f) (Some ?m) (state0 example_rows) =
       (Inl ChannelError, (state0 example_rows)\<lparr>global_data_chat := 42,
          global_data_message := 8, global_file_id := ?f,
          requests :=
            [SendDocument 42 (encode example_rows), SendMessage 42 (AdminId 42),
             SendMessage 42 (ConfigId 8), SendMessage 42 (FileId ?f)]\<rparr>)"
    using t [of "accepting 3 ?f" None ?m ?f, THEN conjunct2, THEN conjunct2, THEN conjunct2,
        THEN conjunct2, THEN conjunct1] h
    by (simp add: state0_def)
  have 5: "save_data (accepting 4 ?f) (Some ?m) (state0 example_rows) =
       (Inr (), (state0 example_rows)\<lparr>global_data_chat := 42,
          global_data_message := 8, global_file_id := ?f,
          requests :=
            [SendDocument 42 (encode example_rows), SendMessage 42 (AdminId 42),
             SendMessage 42 (ConfigId 8), SendMessage 42 (FileId ?f),
             EditMessageMedia 42 8 (encode example_rows)]\<rparr>)"
    using t [of "accepting 4 ?f" None ?m ?f, THEN conjunct2, THEN conjunct2, THEN conjunct2,
        THEN conjunct2, THEN conjunct2] h
    by (simp add: state0_def)
  from l u 0 h 1 2 3 4 5 show ?thesis
    by simp
qed

text \<open>
  C4 as stated fails three times. On a channel that rejects the edit, \<open>update_data\<close>
  returns normally, with the result it has on a channel that accepts it: the failure
  is not surfaced. On a channel that rejects the announcement of the file id,
  \<open>save_data\<close> ends with the channel's exception and the pointer is not the one before.
  On a channel that rejects the final edit of \<open>save_data\<close>, the call returns normally
  and the pointer is not the one before.
\<close>

theorem push_failure_counterexample:
  "\<not> edit_message_media unreachable (global_data_chat (state0 example_rows))
       (global_data_message (state0 example_rows)) (encode example_rows)
   \<and> fst (update_data unreachable None (state0 example_rows)) = Inr ()
   \<and> fst (update_data unreachable None (state0 example_rows))
       = fst (update_data (reliable [] []) None (state0 example_rows))
   \<and> \<not> send_message (accepting 3 (py ''F1'')) 42 (FileId (py ''F1''))
   \<and> fst (save_data (accepting 3 (py ''F1'')) (Some \<lparr>chat_id = 42, message_id = 7\<rparr>)
        (state0 example_rows)) = Inl ChannelError
   \<and> snapshot_pointer (snd (save_data (accepting 3 (py ''F1''))
        (Some \<lparr>chat_id = 42, message_id = 7\<rparr>) (state0 example_rows))) = (42, 8, py ''F1'')
   \<and> \<not> edit_message_media (accepting 4 (py ''F1'')) 42 8 (encode example_rows)
   \<and> fst (save_data (accepting 4 (py ''F1'')) (Some \<lparr>chat_id = 42, message_id = 7\<rparr>)
        (state0 example_rows)) = Inr ()
   \<and> snapshot_pointer (snd (save_data (accepting 4 (py ''F1''))
        (Some \<lparr>chat_id = 42, message_id = 7\<rparr>) (state0 example_rows))) = (42, 8, py ''F1'')
   \<and> snapshot_pointer (state0 example_rows) \<noteq> (42, 8, py ''F1'')"
proof -
  have 1: "\<not> edit_message_media unreachable (global_data_chat (state0 example_rows))
       (global_data_message (state0 example_rows)) (encode example_rows)"
    by (simp add: unreachable_def)
  have 2: "fst (update_data chan None (state0 example_rows)) = Inr ()" for chan
    by (simp add: update_data_result state0_def)
  have 3: "\<not> send_message (accepting 3 (py ''F1'')) 42 (FileId (py ''F1''))"
    "\<not> edit_message_media (accepting 4 (py ''F1'')) 42 8 (encode example_rows)"
    by (simp_all add: accepting_def)
  have 4: "fst (save_data (accepting 3 (py ''F1'')) (Some \<lparr>chat_id = 42, message_id = 7\<rparr>)
        (state0 example_rows)) = Inl ChannelError"
    "snapshot_pointer (snd (save_data (accepting 3 (py ''F1''))
        (Some \<lparr>chat_id = 42, message_id = 7\<rparr>) (state0 example_rows))) = (42, 8, py ''F1'')"
    by (simp_all add: save_data_accepting_3 snapshot_pointer_def)
  have 5: "fst (save_data (accepting 4 (py ''F1'')) (Some \<lparr>chat_id = 42, message_id = 7\<rparr>)
        (state0 example_rows)) = Inr ()"
    "snapshot_pointer (snd (save_data (accepting 4 (py ''F1''))
        (Some \<lparr>chat_id = 42, message_id = 7\<rparr>) (state0 example_rows))) = (42, 8, py ''F1'')"
    by (simp_all add: save_data_accepting_4 snapshot_pointer_def)
  from 1 2 [of unreachable] 2 [of "reliable [] []"] 3 4 5
    state0_pointer_not_42 [of example_rows "py ''F1''"]
  show ?thesis
    by simp
qed

section \<open>Properties of register\<close>

lemma select_where_username_None:
  "select_where_username rows u = None \<longleftrightarrow> (\<forall>r \<in> set rows. row_username r \<noteq> u)"
  by (auto simp: select_where_username_def find_None_iff)

lemma register_conflict:
  "fst (register chan messg username_in password_in st) = Inr None \<longleftrightarrow>
     (\<exists>st1 u st2 rows. server_case chan st = (Inr (), st1) \<and> or_input username_in st1 = (Inr u, st2)
        \<and> login_id st2 = Some rows \<and> bindable_text u \<and> select_where_username rows u \<noteq> None)"
  by (auto simp: register_def Let_def update_data_result
      split: sum.splits option.splits prod.splits if_splits)

lemma register_inserts:
  "register chan messg username_in password_in st = (Inr (Some res), st') \<longleftrightarrow>
     (\<exists>st1 u st2 rows p st3.
        server_case chan st = (Inr (), st1) \<and> or_input username_in st1 = (Inr u, st2)
        \<and> login_id st2 = Some rows \<and> bindable_text u \<and> select_where_username rows u = None
        \<and> or_input password_in st2 = (Inr p, st3)
        \<and> bind_row (user_id messg, u, p) = None
        \<and> res = (results_10 (rows @ [(user_id messg, u, p)]),
                  user_place (rows @ [(user_id messg, u, p)]) u)
        \<and> st' = st3\<lparr>login_id := Some (rows @ [(user_id messg, u, p)]),
                    requests := requests st3 @
                      [EditMessageMedia (global_data_chat st3) (global_data_message st3)
                         (encode (rows @ [(user_id messg, u, p)]))]\<rparr>)"
  by (auto simp: register_def Let_def update_data_result
      split: sum.splits option.splits prod.splits if_splits)

lemma register_given:
  assumes "get_file chan (global_file_id st) = Some blob" and "decode blob = Inr data"
    and "list_all (\<lambda>r. bind_row r = None) data"
    and "bind_row (user_id messg, u, p) = None"
  shows "register chan messg (Some u) (Some p) st =
     (let rows = (case login_id st of None \<Rightarrow> [] | Some rows \<Rightarrow> rows) @ data;
          rows' = rows @ [(user_id messg, u, p)]
      in if \<exists>r \<in> set rows. row_username r = u
         then (Inr None, st\<lparr>login_id := Some rows,
                 requests := requests st @ [GetFile (global_file_id st)]\<rparr>)
         else (Inr (Some (results_10 rows', user_place rows' u)),
               st\<lparr>login_id := Some rows',
                 requests := requests st @ [GetFile (global_file_id st),
                   EditMessageMedia (global_data_chat st) (global_data_message st) (encode rows')]\<rparr>))"
proof -
  let ?rows = "(case login_id st of None \<Rightarrow> [] | Some rows \<Rightarrow> rows) @ data"
  from assms(4) have b: "bindable_text u"
    by (simp add: bind_row_def row_username_def split: if_splits)
  show ?thesis
  proof (cases "select_where_username ?rows u")
    case None
    then have n: "\<not> (\<exists>r \<in> set ?rows. row_username r = u)"
      by (simp add: select_where_username_None)
    show ?thesis
      using None n b assms(4)
      by (simp add: register_def server_case_ok [OF assms(1-3)] or_input_def update_data_result
          Let_def)
  next
    case (Some r)
    then have "\<exists>r \<in> set ?rows. row_username r = u"
      using select_where_username_None [of ?rows u] by auto
    with Some b show ?thesis
      by (simp add: register_def server_case_ok [OF assms(1-3)] or_input_def Let_def)
  qed
qed

text \<open>
  C10. \<open>register\<close> called with an object that has no chat id behaves as \<open>register\<close>
  called with a message of chat id 0. Whether it ends in \<open>(None, None)\<close> does not
  depend on the message. When it inserts, the new record is the last of the table and
  has the id 0, the username was in no record before, the two results are the two
  queries on the table with the new record, and a call with a message whose chat id
  can be stored inserts the same username and password after the same records with
  that chat id and returns the same two queries on its table.
\<close>

theorem register_without_chat_id:
  "register chan None username_in password_in st
     = register chan (Some \<lparr>chat_id = 0, message_id = k\<rparr>) username_in password_in st
   \<and> (fst (register chan None username_in password_in st) = Inr None
        \<longleftrightarrow> fst (register chan (Some m) username_in password_in st) = Inr None)
   \<and> (register chan None username_in password_in st = (Inr (Some res), st') \<longrightarrow>
        (\<exists>rows u p. login_id st' = Some (rows @ [(0, u, p)])
           \<and> select_where_username rows u = None
           \<and> res = (results_10 (rows @ [(0, u, p)]), user_place (rows @ [(0, u, p)]) u)
           \<and> (bindable_int (chat_id m) \<longrightarrow>
                (\<exists>st''. register chan (Some m) username_in password_in st
                          = (Inr (Some (results_10 (rows @ [(chat_id m, u, p)]),
                                        user_place (rows @ [(chat_id m, u, p)]) u)), st'')
                   \<and> login_id st'' = Some (rows @ [(chat_id m, u, p)])))))"
proof (intro conjI impI)
  have e: "user_id (Some \<lparr>chat_id = 0, message_id = k\<rparr>) = user_id None"
    by (simp add: user_id_def)
  show "register chan None username_in password_in st
          = register chan (Some \<lparr>chat_id = 0, message_id = k\<rparr>) username_in password_in st"
    unfolding register_def e by (rule refl)
  show "fst (register chan None username_in password_in st) = Inr None
          \<longleftrightarrow> fst (register chan (Some m) username_in password_in st) = Inr None"
    by (simp add: register_conflict)
next
  assume "register chan None username_in password_in st = (Inr (Some res), st')"
  then obtain st1 u st2 rows p st3 where
    h: "server_case chan st = (Inr (), st1)" "or_input username_in st1 = (Inr u, st2)"
       "login_id st2 = Some rows" "bindable_text u" "select_where_username rows u = None"
       "or_input password_in st2 = (Inr p, st3)"
    and b: "bind_row (user_id None, u, p) = None"
    and r: "res = (results_10 (rows @ [(user_id None, u, p)]),
                   user_place (rows @ [(user_id None, u, p)]) u)"
    and s: "st' = st3\<lparr>login_id := Some (rows @ [(user_id None, u, p)]),
                    requests := requests st3 @
                      [EditMessageMedia (global_data_chat st3) (global_data_message st3)
                         (encode (rows @ [(user_id None, u, p)]))]\<rparr>"
    unfolding register_inserts by blast
  have z: "user_id None = 0"
    by (simp add: user_id_def)
  have real: "\<exists>st''. register chan (Some m) username_in password_in st
                          = (Inr (Some (results_10 (rows @ [(chat_id m, u, p)]),
                                        user_place (rows @ [(chat_id m, u, p)]) u)), st'')
                   \<and> login_id st'' = Some (rows @ [(chat_id m, u, p)])"
    if i: "bindable_int (chat_id m)"
  proof -
    from b i have "bind_row (user_id (Some m), u, p) = None"
      by (simp add: bind_row_def row_id_def row_username_def row_password_def user_id_def
          split: if_splits)
    with h have "register chan (Some m) username_in password_in st
        = (Inr (Some (results_10 (rows @ [(user_id (Some m), u, p)]),
                      user_place (rows @ [(user_id (Some m), u, p)]) u)),
           st3\<lparr>login_id := Some (rows @ [(user_id (Some m), u, p)]),
                    requests := requests st3 @
                      [EditMessageMedia (global_data_chat st3) (global_data_message st3)
                         (encode (rows @ [(user_id (Some m), u, p)]))]\<rparr>)"
      unfolding register_inserts by blast
    then show ?thesis
      by (simp add: user_id_def)
  qed
  from h(5) r s z real
  show "\<exists>rows u p. login_id st' = Some (rows @ [(0, u, p)])
           \<and> select_where_username rows u = None
           \<and> res = (results_10 (rows @ [(0, u, p)]), user_place (rows @ [(0, u, p)]) u)
           \<and> (bindable_int (chat_id m) \<longrightarrow>
                (\<exists>st''. register chan (Some m) username_in password_in st
                          = (Inr (Some (results_10 (rows @ [(chat_id m, u, p)]),
                                        user_place (rows @ [(chat_id m, u, p)]) u)), st'')
                   \<and> login_id st'' = Some (rows @ [(chat_id m, u, p)])))"
    by (intro exI [of _ rows] exI [of _ u] exI [of _ p]) simp
qed

lemma bind_row_erin: "bind_row (i, py ''erin'', py ''pw5'') = None \<longleftrightarrow> bindable_int i"
  by (simp add: bind_row_def bindable_text_def row_id_def row_username_def row_password_def py_def)

lemma register_erin:
  assumes "bindable_int (user_id messg)"
  shows "register (reliable dave_blob []) messg (Some (py ''erin'')) (Some (py ''pw5''))
           (state0 example_rows) =
     (Inr (Some (results_10 (example_rows @ [(7, py ''dave'', py ''pw4''),
                                             (user_id messg, py ''erin'', py ''pw5'')]),
                 user_place (example_rows @ [(7, py ''dave'', py ''pw4''),
                                             (user_id messg, py ''erin'', py ''pw5'')])
                   (py ''erin''))),
      (state0 example_rows)
        \<lparr>login_id := Some (example_rows @ [(7, py ''dave'', py ''pw4''),
                                           (user_id messg, py ''erin'', py ''pw5'')]),
         requests := [GetFile (global_file_id (state0 example_rows)),
           EditMessageMedia 721641425 430
             (encode (example_rows @ [(7, py ''dave'', py ''pw4''),
                                      (user_id messg, py ''erin'', py ''pw5'')]))]\<rparr>)"
proof -
  have g: "get_file (reliable dave_blob []) (global_file_id (state0 example_rows)) = Some dave_blob"
    by (simp add: reliable_def)
  have b: "list_all (\<lambda>r. bind_row r = None) [(7, py ''dave'', py ''pw4'')]"
    by (simp add: bind_row_dave)
  have e: "bind_row (user_id messg, py ''erin'', py ''pw5'') = None"
    using assms by (simp add: bind_row_erin)
  have n: "\<not> (\<exists>r \<in> set (example_rows @ [(7, py ''dave'', py ''pw4'')]).
               row_username r = py ''erin'')"
    by (simp add: example_rows_def row_username_def py_def)
  have l: "login_id (state0 example_rows) = Some example_rows"
    "requests (state0 example_rows) = []"
    "global_data_chat (state0 example_rows) = 721641425"
    "global_data_message (state0 example_rows) = 430"
    by (simp_all add: state0_def)
  show ?thesis
    unfolding register_given [OF g decode_dave b e] Let_def using n by (simp add: l)
qed

lemma register_dave:
  "fst (register (reliable dave_blob []) messg (Some (py ''dave'')) (Some (py ''pw4''))
          (state0 example_rows)) = Inr None"
proof -
  have g: "get_file (reliable dave_blob []) (global_file_id (state0 example_rows)) = Some dave_blob"
    by (simp add: reliable_def)
  have b: "list_all (\<lambda>r. bind_row r = None) [(7, py ''dave'', py ''pw4'')]"
    by (simp add: bind_row_dave)
  have "server_case (reliable dave_blob []) (state0 example_rows)
          = (Inr (), snd (server_case (reliable dave_blob []) (state0 example_rows)))"
    "login_id (snd (server_case (reliable dave_blob []) (state0 example_rows)))
          = Some (example_rows @ [(7, py ''dave'', py ''pw4'')])"
    using server_case_ok [OF g decode_dave b] by (simp_all add: state0_def)
  moreover have "bindable_text (py ''dave'')"
    by (simp add: bindable_text_def py_def)
  moreover have "select_where_username (example_rows @ [(7, py ''dave'', py ''pw4'')]) (py ''dave'')
                   \<noteq> None"
    by (simp add: select_where_username_None row_username_def)
  ultimately show ?thesis
    unfolding register_conflict or_input_def by auto
qed

theorem register_without_chat_id_witness:
  "register (reliable dave_blob []) None (Some (py ''erin'')) (Some (py ''pw5''))
       (state0 example_rows)
     = register (reliable dave_blob []) (Some \<lparr>chat_id = 0, message_id = 7\<rparr>) (Some (py ''erin''))
         (Some (py ''pw5'')) (state0 example_rows)
   \<and> fst (register (reliable dave_blob []) None (Some (py ''dave'')) (Some (py ''pw4''))
            (state0 example_rows)) = Inr None
   \<and> fst (register (reliable dave_blob []) (Some \<lparr>chat_id = 42, message_id = 7\<rparr>)
            (Some (py ''dave'')) (Some (py ''pw4'')) (state0 example_rows)) = Inr None
   \<and> fst (register (reliable dave_blob []) None (Some (py ''erin'')) (Some (py ''pw5''))
            (state0 example_rows))
       = Inr (Some ([(7, py ''dave''), (5, py ''bob''), (3, py ''carol''), (1, py ''alice''),
                     (0, py ''erin'')],
                    [(0, py ''erin'', 5)]))
   \<and> login_id (snd (register (reliable dave_blob []) None (Some (py ''erin'')) (Some (py ''pw5''))
                       (state0 example_rows)))
       = Some (example_rows @ [(7, py ''dave'', py ''pw4''), (0, py ''erin'', py ''pw5'')])
   \<and> bindable_int (chat_id \<lparr>chat_id = 42, message_id = 7\<rparr>)
   \<and> fst (register (reliable dave_blob []) (Some \<lparr>chat_id = 42, message_id = 7\<rparr>)
            (Some (py ''erin'')) (Some (py ''pw5'')) (state0 example_rows))
       = Inr (Some ([(42, py ''erin''), (7, py ''dave''), (5, py ''bob''), (3, py ''carol''),
                     (1, py ''alice'')],
                    [(42, py ''erin'', 1)]))
   \<and> login_id (snd (register (reliable dave_blob []) (Some \<lparr>chat_id = 42, message_id = 7\<rparr>)
                       (Some (py ''erin'')) (Some (py ''pw5'')) (state0 example_rows)))
       = Some (example_rows @ [(7, py ''dave'', py ''pw4''), (42, py ''erin'', py ''pw5'')])"
proof -
  let ?c = "reliable dave_blob []"
  let ?m = "\<lparr>chat_id = 42, message_id = 7\<rparr>"
  let ?st = "state0 example_rows"
  let ?u = "Some (py ''erin'')"
  let ?p = "Some (py ''pw5'')"
  let ?old = "example_rows @ [(7, py ''dave'', py ''pw4'')]"
  have i: "bindable_int (user_id None)" "bindable_int (chat_id ?m)"
    by (simp_all add: bindable_int_def user_id_def)
  obtain res st' where run: "register ?c None ?u ?p ?st = (Inr (Some res), st')"
    and tab: "login_id st' = Some (?old @ [(0, py ''erin'', py ''pw5'')])"
    using register_erin [OF i(1)] by (simp add: user_id_def)
  note t = register_without_chat_id [of ?c ?u ?p ?st 7 ?m res st']
  from t have 1: "register ?c None ?u ?p ?st
                    = register ?c (Some \<lparr>chat_id = 0, message_id = 7\<rparr>) ?u ?p ?st"
    by blast
  from register_without_chat_id
    [of ?c "Some (py ''dave'')" "Some (py ''pw4'')" ?st 7 ?m res st', THEN conjunct2, THEN conjunct1]
    register_dave [of None]
  have 2: "fst (register ?c None (Some (py ''dave'')) (Some (py ''pw4'')) ?st) = Inr None"
    "fst (register ?c (Some ?m) (Some (py ''dave'')) (Some (py ''pw4'')) ?st) = Inr None"
    by simp_all
  from t run obtain rows u p where
    a: "login_id st' = Some (rows @ [(0, u, p)])"
    and b: "res = (results_10 (rows @ [(0, u, p)]), user_place (rows @ [(0, u, p)]) u)"
    and c: "bindable_int (chat_id ?m) \<longrightarrow>
              (\<exists>st''. register ?c (Some ?m) ?u ?p ?st
                         = (Inr (Some (results_10 (rows @ [(chat_id ?m, u, p)]),
                                       user_place (rows @ [(chat_id ?m, u, p)]) u)), st'')
                 \<and> login_id st'' = Some (rows @ [(chat_id ?m, u, p)]))"
    by blast
  from a tab have d: "rows = ?old" "u = py ''erin''" "p = py ''pw5''"
    by simp_all
  have top0: "results_10 (?old @ [(0, py ''erin'', py ''pw5'')])
                = [(7, py ''dave''), (5, py ''bob''), (3, py ''carol''), (1, py ''alice''),
                   (0, py ''erin'')]"
    and top42: "results_10 (?old @ [(42, py ''erin'', py ''pw5'')])
                = [(42, py ''erin''), (7, py ''dave''), (5, py ''bob''), (3, py ''carol''),
                   (1, py ''alice'')]"
    by (simp_all add: results_10_def select_top_def order_by_id_desc_def example_rows_def
        row_id_def row_username_def)
  have place0: "user_place (?old @ [(0, py ''erin'', py ''pw5'')]) (py ''erin'')
                  = [(0, py ''erin'', 5)]"
    and place42: "user_place (?old @ [(42, py ''erin'', py ''pw5'')]) (py ''erin'')
                  = [(42, py ''erin'', 1)]"
    by (simp_all add: user_place_def select_row_number_def order_by_id_desc_def example_rows_def
        row_id_def row_username_def py_def upt_rec [of 1] upt_rec [of 2] upt_rec [of 3]
        upt_rec [of 4] upt_rec [of 5])
  from run b d top0 place0
  have 3: "fst (register ?c None ?u ?p ?st)
       = Inr (Some ([(7, py ''dave''), (5, py ''bob''), (3, py ''carol''), (1, py ''alice''),
                     (0, py ''erin'')],
                    [(0, py ''erin'', 5)]))"
    by simp
  from run tab have 4: "login_id (snd (register ?c None ?u ?p ?st))
                          = Some (?old @ [(0, py ''erin'', py ''pw5'')])"
    by simp
  from c i(2) d top42 place42
  have 5: "fst (register ?c (Some ?m) ?u ?p ?st)
       = Inr (Some ([(42, py ''erin''), (7, py ''dave''), (5, py ''bob''), (3, py ''carol''),
                     (1, py ''alice'')],
                    [(42, py ''erin'', 1)]))"
    "login_id (snd (register ?c (Some ?m) ?u ?p ?st)) = Some (?old @ [(42, py ''erin'', py ''pw5'')])"
    by auto
  from 1 2 3 4 i(2) 5 show ?thesis
    by simp
qed








end
